theory Spec2Isabelle
  imports Main "HOL-Library.Product_Lexorder"
begin

section \<open>Exceptions\<close>

text \<open>
  Every exception that \<^verbatim>\<open>sonar.py\<close> or the library calls it makes can raise is a value.
  \<open>Exception msg\<close> is the plain \<^verbatim>\<open>Exception(msg)\<close> that \<^verbatim>\<open>search_arxiv_api\<close> raises itself.
  A function that can raise returns \<open>pyerr + 'a\<close>.
\<close>

datatype pyerr =
    ValueError
  | TypeError
  | OverflowError
  | AttributeError
  | KeyError string
  | ParseError
  | Exception string
  | OSError
  | FileNotFoundError
  | YAMLError
  | UnboundLocalError

definition bindE :: "pyerr + 'a \<Rightarrow> ('a \<Rightarrow> pyerr + 'b) \<Rightarrow> pyerr + 'b" where
  "bindE m f = (case m of Inl e \<Rightarrow> Inl e | Inr v \<Rightarrow> f v)"

section \<open>The standard library's \<^verbatim>\<open>datetime\<close>\<close>

text \<open>
  The program reads the clock, parses and prints timestamps and adds \<^verbatim>\<open>timedelta\<close>s.
  These are calls into Python's \<^verbatim>\<open>datetime\<close> and \<^verbatim>\<open>_strptime\<close> modules, transcribed here from
  the pure-Python implementation. Strings are lists of 8-bit characters (the code points
  below 256); Python integers are \<open>int\<close>.
\<close>

subsection \<open>Calendar arithmetic\<close>

record datetime =
  year :: int
  month :: int
  day :: int
  hour :: int
  minute :: int
  second :: int
  microsecond :: int

definition MINYEAR :: int where "MINYEAR = 1"
definition MAXYEAR :: int where "MAXYEAR = 9999"
definition MAXORDINAL :: int where "MAXORDINAL = 3652059"

definition DAYS_IN_MONTH :: "int list" where
  "DAYS_IN_MONTH = [-1, 31, 28, 31, 30, 31, 30, 31, 31, 30, 31, 30, 31]"

definition DAYS_BEFORE_MONTH :: "int list" where
  "DAYS_BEFORE_MONTH = [-1, 0, 31, 59, 90, 120, 151, 181, 212, 243, 273, 304, 334]"

definition is_leap :: "int \<Rightarrow> bool" where
  "is_leap y = (y mod 4 = 0 \<and> (y mod 100 \<noteq> 0 \<or> y mod 400 = 0))"

definition days_before_year :: "int \<Rightarrow> int" where
  "days_before_year yr = (let y = yr - 1 in y * 365 + y div 4 - y div 100 + y div 400)"

definition days_in_month :: "int \<Rightarrow> int \<Rightarrow> int" where
  "days_in_month y m = (if m = 2 \<and> is_leap y then 29 else DAYS_IN_MONTH ! nat m)"

definition days_before_month :: "int \<Rightarrow> int \<Rightarrow> int" where
  "days_before_month y m = DAYS_BEFORE_MONTH ! nat m + of_bool (m > 2 \<and> is_leap y)"

definition ymd2ord :: "int \<Rightarrow> int \<Rightarrow> int \<Rightarrow> int" where
  "ymd2ord y m d = days_before_year y + days_before_month y m + d"

definition DI400Y :: int where "DI400Y = 146097"
definition DI100Y :: int where "DI100Y = 36524"
definition DI4Y :: int where "DI4Y = 1461"

definition ord2ymd :: "int \<Rightarrow> int \<times> int \<times> int" where
  "ord2ymd n0 =
     (let n = n0 - 1;
          n400 = n div DI400Y; n = n mod DI400Y;
          yr = n400 * 400 + 1;
          n100 = n div DI100Y; n = n mod DI100Y;
          n4 = n div DI4Y; n = n mod DI4Y;
          n1 = n div 365; n = n mod 365;
          yr = yr + n100 * 100 + n4 * 4 + n1
      in if n1 = 4 \<or> n100 = 4 then (yr - 1, 12, 31)
         else
           (let leapyear = (n1 = 3 \<and> (n4 \<noteq> 24 \<or> n100 = 3));
                mo = (n + 50) div 32;
                preceding = DAYS_BEFORE_MONTH ! nat mo + of_bool (mo > 2 \<and> leapyear)
            in if preceding > n
               then (let mo' = mo - 1;
                         preceding' = preceding - (DAYS_IN_MONTH ! nat mo' + of_bool (mo' = 2 \<and> leapyear))
                     in (yr, mo', n - preceding' + 1))
               else (yr, mo, n - preceding + 1)))"

text \<open>
  The constructor \<^verbatim>\<open>datetime(year, month, day, hour, minute, second, microsecond)\<close>
  checks its fields in this order and raises \<^verbatim>\<open>ValueError\<close> at the first one out of range.
\<close>

definition new_datetime :: "int \<Rightarrow> int \<Rightarrow> int \<Rightarrow> int \<Rightarrow> int \<Rightarrow> int \<Rightarrow> int \<Rightarrow> pyerr + datetime" where
  "new_datetime y mo d h mi s us =
     (if \<not> (MINYEAR \<le> y \<and> y \<le> MAXYEAR) then Inl ValueError
      else if \<not> (1 \<le> mo \<and> mo \<le> 12) then Inl ValueError
      else if \<not> (1 \<le> d \<and> d \<le> days_in_month y mo) then Inl ValueError
      else if \<not> (0 \<le> h \<and> h \<le> 23) then Inl ValueError
      else if \<not> (0 \<le> mi \<and> mi \<le> 59) then Inl ValueError
      else if \<not> (0 \<le> s \<and> s \<le> 59) then Inl ValueError
      else if \<not> (0 \<le> us \<and> us \<le> 999999) then Inl ValueError
      else Inr \<lparr>year = y, month = mo, day = d, hour = h, minute = mi, second = s, microsecond = us\<rparr>)"

text \<open>The values the constructor accepts: every \<^verbatim>\<open>datetime\<close> object satisfies this.\<close>

definition valid_datetime :: "datetime \<Rightarrow> bool" where
  "valid_datetime t =
     (MINYEAR \<le> year t \<and> year t \<le> MAXYEAR \<and> 1 \<le> month t \<and> month t \<le> 12 \<and>
      1 \<le> day t \<and> day t \<le> days_in_month (year t) (month t) \<and>
      0 \<le> hour t \<and> hour t \<le> 23 \<and> 0 \<le> minute t \<and> minute t \<le> 59 \<and>
      0 \<le> second t \<and> second t \<le> 59 \<and> 0 \<le> microsecond t \<and> microsecond t \<le> 999999)"

definition toordinal :: "datetime \<Rightarrow> int" where
  "toordinal t = ymd2ord (year t) (month t) (day t)"

text \<open>
  \<^verbatim>\<open>timedelta(days, seconds, microseconds)\<close> normalises its fields with floor division, so
  that \<open>0 \<le> seconds < 86400\<close> and \<open>0 \<le> microseconds < 1000000\<close>.
\<close>

record timedelta =
  td_days :: int
  td_seconds :: int
  td_microseconds :: int

definition new_timedelta :: "int \<Rightarrow> int \<Rightarrow> int \<Rightarrow> timedelta" where
  "new_timedelta d s us =
     (let s1 = s + us div 1000000;
          us1 = us mod 1000000;
          d1 = d + s1 div 86400;
          s2 = s1 mod 86400
      in \<lparr>td_days = d1, td_seconds = s2, td_microseconds = us1\<rparr>)"

definition timedelta_add :: "timedelta \<Rightarrow> timedelta \<Rightarrow> timedelta" where
  "timedelta_add a b =
     new_timedelta (td_days a + td_days b) (td_seconds a + td_seconds b)
       (td_microseconds a + td_microseconds b)"

definition timedelta_neg :: "timedelta \<Rightarrow> timedelta" where
  "timedelta_neg a = new_timedelta (- td_days a) (- td_seconds a) (- td_microseconds a)"

text \<open>\<^verbatim>\<open>datetime.__add__\<close>: the sum, or \<^verbatim>\<open>OverflowError\<close> when the day leaves \<open>1..MAXORDINAL\<close>.\<close>

definition datetime_add :: "datetime \<Rightarrow> timedelta \<Rightarrow> pyerr + datetime" where
  "datetime_add self other =
     (let delta = timedelta_add
            (new_timedelta (toordinal self)
               (hour self * 3600 + minute self * 60 + second self) (microsecond self))
            other;
          h = td_seconds delta div 3600; rem = td_seconds delta mod 3600;
          mi = rem div 60; s = rem mod 60
      in if 0 < td_days delta \<and> td_days delta \<le> MAXORDINAL
         then (case ord2ymd (td_days delta) of (y, mo, d) \<Rightarrow>
                 Inr \<lparr>year = y, month = mo, day = d, hour = h, minute = mi, second = s,
                      microsecond = td_microseconds delta\<rparr>)
         else Inl OverflowError)"

definition datetime_sub :: "datetime \<Rightarrow> timedelta \<Rightarrow> pyerr + datetime" where
  "datetime_sub self other = datetime_add self (timedelta_neg other)"

text \<open>
  Naive \<^verbatim>\<open>datetime\<close> values compare as the tuples of their fields, lexicographically.
\<close>

definition dt_key :: "datetime \<Rightarrow> int \<times> int \<times> int \<times> int \<times> int \<times> int \<times> int" where
  "dt_key t = (year t, month t, day t, hour t, minute t, second t, microsecond t)"

subsection \<open>Printing: \<^verbatim>\<open>strftime\<close>\<close>

definition digit_char :: "int \<Rightarrow> char" where
  "digit_char n = char_of (48 + nat n)"

definition is_digit :: "char \<Rightarrow> bool" where
  "is_digit c = (48 \<le> (of_char c :: nat) \<and> (of_char c :: nat) \<le> 57)"

definition digit_val :: "char \<Rightarrow> int" where
  "digit_val c = int (of_char c) - 48"

text \<open>The decimal digits of a non-negative integer, as \<^verbatim>\<open>str(n)\<close> prints them.\<close>

function str_int :: "int \<Rightarrow> string" where
  "str_int n = (if n < 10 then [digit_char n] else str_int (n div 10) @ [digit_char (n mod 10)])"
  by pat_completeness auto
termination
  by (relation "measure nat") auto

declare str_int.simps [simp del]

definition pad2 :: "int \<Rightarrow> string" where
  "pad2 n = [digit_char (n div 10), digit_char (n mod 10)]"

text \<open>
  The conversions of the C library behind \<^verbatim>\<open>strftime\<close>: \<^verbatim>\<open>%Y\<close> prints the year without
  padding (glibc prints the year 999 as \<^verbatim>\<open>999\<close>), the others print two digits. The program
  uses these six only; any other conversion is copied through unchanged.
\<close>

definition strftime_directive :: "datetime \<Rightarrow> char \<Rightarrow> string" where
  "strftime_directive t k =
     (if k = CHR ''Y'' then str_int (year t)
      else if k = CHR ''m'' then pad2 (month t)
      else if k = CHR ''d'' then pad2 (day t)
      else if k = CHR ''H'' then pad2 (hour t)
      else if k = CHR ''M'' then pad2 (minute t)
      else if k = CHR ''S'' then pad2 (second t)
      else [CHR ''%'', k])"

fun strftime :: "datetime \<Rightarrow> string \<Rightarrow> string" where
  "strftime t [] = []"
| "strftime t [c] = [c]"
| "strftime t (c # k # fs) =
     (if c = CHR ''%'' then strftime_directive t k @ strftime t fs
      else c # strftime t (k # fs))"

subsection \<open>Parsing: \<^verbatim>\<open>strptime\<close>\<close>

text \<open>
  \<^verbatim>\<open>_strptime\<close> turns the format into a regular expression and matches it at the start of
  the data (\<^verbatim>\<open>re.match\<close>, with \<^verbatim>\<open>IGNORECASE\<close>). Each conversion is a group of alternatives,
  tried in order; a run of whitespace in the format is \<^verbatim>\<open>\s+\<close>; any other character stands
  for itself.
\<close>

datatype cclass = Range char char | Digit | Chr char

definition in_class :: "cclass \<Rightarrow> char \<Rightarrow> bool" where
  "in_class k c =
     (case k of
        Range lo hi \<Rightarrow> (of_char lo :: nat) \<le> of_char c \<and> (of_char c :: nat) \<le> of_char hi
      | Digit \<Rightarrow> is_digit c
      | Chr x \<Rightarrow> c = x)"

text \<open>
  The table of \<^verbatim>\<open>TimeRE\<close>, for the conversions the program's two formats use:
  for example \<^verbatim>\<open>'m': 1[0-2]|0[1-9]|[1-9]\<close>.
\<close>

definition TimeRE :: "char \<Rightarrow> cclass list list option" where
  "TimeRE k =
     (if k = CHR ''d'' then
        Some [[Chr CHR ''3'', Range CHR ''0'' CHR ''1''], [Range CHR ''1'' CHR ''2'', Digit],
              [Chr CHR ''0'', Range CHR ''1'' CHR ''9''], [Range CHR ''1'' CHR ''9''],
              [Chr CHR '' '', Range CHR ''1'' CHR ''9'']]
      else if k = CHR ''H'' then
        Some [[Chr CHR ''2'', Range CHR ''0'' CHR ''3''], [Range CHR ''0'' CHR ''1'', Digit], [Digit]]
      else if k = CHR ''m'' then
        Some [[Chr CHR ''1'', Range CHR ''0'' CHR ''2''], [Chr CHR ''0'', Range CHR ''1'' CHR ''9''],
              [Range CHR ''1'' CHR ''9'']]
      else if k = CHR ''M'' then
        Some [[Range CHR ''0'' CHR ''5'', Digit], [Digit]]
      else if k = CHR ''S'' then
        Some [[Chr CHR ''6'', Range CHR ''0'' CHR ''1''], [Range CHR ''0'' CHR ''5'', Digit], [Digit]]
      else if k = CHR ''Y'' then
        Some [[Digit, Digit, Digit, Digit]]
      else None)"

text \<open>Whitespace as \<^verbatim>\<open>\s\<close> reads it on a \<^verbatim>\<open>str\<close>, among the code points below 256.\<close>

definition is_space :: "char \<Rightarrow> bool" where
  "is_space c =
     (let n = (of_char c :: nat)
      in (9 \<le> n \<and> n \<le> 13) \<or> (28 \<le> n \<and> n \<le> 32) \<or> n = 133 \<or> n = 160)"

datatype item = Lit char | Spaces | Group char "cclass list list"

text \<open>
  \<^verbatim>\<open>TimeRE.pattern\<close>: a stray \<^verbatim>\<open>%\<close> at the end and a conversion that is not in the table
  both end as \<^verbatim>\<open>ValueError\<close> in \<^verbatim>\<open>_strptime\<close>.
\<close>

function pattern :: "string \<Rightarrow> pyerr + item list" where
  "pattern [] = Inr []"
| "pattern (c # fs) =
     (if is_space c then
        bindE (pattern (dropWhile is_space fs)) (\<lambda>its. Inr (Spaces # its))
      else if c = CHR ''%'' then
        (case fs of
           [] \<Rightarrow> Inl ValueError
         | k # fs' \<Rightarrow>
             (case TimeRE k of
                None \<Rightarrow> Inl ValueError
              | Some alts \<Rightarrow> bindE (pattern fs') (\<lambda>its. Inr (Group k alts # its))))
      else bindE (pattern fs) (\<lambda>its. Inr (Lit c # its)))"
  by pat_completeness auto
termination
  by (relation "measure length") (auto simp: le_imp_less_Suc length_dropWhile_le)

fun match_alt :: "cclass list \<Rightarrow> string \<Rightarrow> (string \<times> string) option" where
  "match_alt [] s = Some ([], s)"
| "match_alt (k # ks) [] = None"
| "match_alt (k # ks) (c # s) =
     (if in_class k c
      then (case match_alt ks s of None \<Rightarrow> None | Some (t, r) \<Rightarrow> Some (c # t, r))
      else None)"

definition ascii_lower :: "char \<Rightarrow> char" where
  "ascii_lower c =
     (let n = (of_char c :: nat) in if 65 \<le> n \<and> n \<le> 90 then char_of (n + 32) else c)"

text \<open>
  All the ways the items match at the start of \<open>s\<close>, in the order a backtracking matcher
  finds them: each is the text of every group and the unread rest. \<^verbatim>\<open>\s+\<close> is greedy: the
  longest run first.
\<close>

fun matches :: "item list \<Rightarrow> string \<Rightarrow> ((char \<times> string) list \<times> string) list" where
  "matches [] s = [([], s)]"
| "matches (Lit c # its) s =
     (case s of
        [] \<Rightarrow> []
      | x # xs \<Rightarrow> if ascii_lower x = ascii_lower c then matches its xs else [])"
| "matches (Spaces # its) s =
     concat (map (\<lambda>k. matches its (drop k s))
                 (rev [1 ..< Suc (length (takeWhile is_space s))]))"
| "matches (Group g alts # its) s =
     concat (map (\<lambda>(t, r). map (\<lambda>(found, rest). ((g, t) # found, rest)) (matches its r))
                 (List.map_filter (\<lambda>a. match_alt a s) alts))"

text \<open>\<^verbatim>\<open>re.match\<close> returns the first of them, or \<^verbatim>\<open>None\<close>.\<close>

definition re_match :: "item list \<Rightarrow> string \<Rightarrow> ((char \<times> string) list \<times> string) option" where
  "re_match its s = (case matches its s of [] \<Rightarrow> None | m # _ \<Rightarrow> Some m)"

text \<open>\<^verbatim>\<open>int(text)\<close> on the text of a group: digits, after an optional blank.\<close>

definition py_int :: "string \<Rightarrow> int" where
  "py_int s = foldl (\<lambda>a c. 10 * a + digit_val c) 0 (dropWhile is_space s)"

definition found_or :: "(char \<times> string) list \<Rightarrow> char \<Rightarrow> int \<Rightarrow> int" where
  "found_or found_dict k dflt = (case map_of found_dict k of None \<Rightarrow> dflt | Some t \<Rightarrow> py_int t)"

text \<open>
  \<^verbatim>\<open>datetime.strptime(data_string, format)\<close>. No match, unconverted data after the match,
  and fields the constructor refuses are all \<^verbatim>\<open>ValueError\<close>.
\<close>

definition strptime :: "string \<Rightarrow> string \<Rightarrow> pyerr + datetime" where
  "strptime data_string format =
     bindE (pattern format) (\<lambda>its.
       case re_match its data_string of
         None \<Rightarrow> Inl ValueError
       | Some (found_dict, rest) \<Rightarrow>
           if rest \<noteq> [] then Inl ValueError
           else new_datetime (found_or found_dict CHR ''Y'' 1900) (found_or found_dict CHR ''m'' 1)
                  (found_or found_dict CHR ''d'' 1) (found_or found_dict CHR ''H'' 0)
                  (found_or found_dict CHR ''M'' 0) (found_or found_dict CHR ''S'' 0) 0)"

section \<open>\<^verbatim>\<open>compute_weekly_range\<close>\<close>

text \<open>
  \<open>now\<close> is what \<^verbatim>\<open>datetime.now()\<close> returns at line 43. A string is truthy unless empty.
  The \<^verbatim>\<open>try\<close> covers the parse, the addition and the printing; only \<^verbatim>\<open>ValueError\<close> is handled.
\<close>

definition canonical :: string where
  "canonical = ''%Y-%m-%d %H:%M:%S''"

definition seven_days_ago :: "datetime \<Rightarrow> pyerr + string \<times> string" where
  "seven_days_ago now =
     bindE (datetime_sub now (new_timedelta 7 0 0)) (\<lambda>start_datetime.
       Inr (strftime start_datetime canonical, strftime now canonical))"

definition compute_weekly_range :: "datetime \<Rightarrow> string option \<Rightarrow> pyerr + string \<times> string" where
  "compute_weekly_range now last_run_datetime_str =
     (case last_run_datetime_str of
        None \<Rightarrow> seven_days_ago now
      | Some s \<Rightarrow>
          if s = [] then seven_days_ago now
          else
            (case bindE (strptime s canonical) (\<lambda>last_run_datetime.
                    bindE (datetime_add last_run_datetime (new_timedelta 0 1 0)) (\<lambda>start_datetime.
                      Inr (strftime start_datetime canonical, strftime now canonical))) of
               Inl ValueError \<Rightarrow> seven_days_ago now
             | r \<Rightarrow> r))"

section \<open>\<^verbatim>\<open>search_arxiv_api\<close>\<close>

subsection \<open>The request\<close>

text \<open>\<^verbatim>\<open>s.replace(old, new)\<close> for a one-character \<open>old\<close>.\<close>

definition replace :: "char \<Rightarrow> string \<Rightarrow> string \<Rightarrow> string" where
  "replace old new s = concat (map (\<lambda>c. if c = old then new else [c]) s)"

text \<open>Lines 65 to 71: the query is cleaned, the bounds lose their separators.\<close>

definition build_url :: "string \<Rightarrow> string \<Rightarrow> string \<Rightarrow> int \<Rightarrow> string" where
  "build_url search_query0 start_datetime end_datetime max_results =
     (let search_query = replace CHR ''\<newline>'' '' '' search_query0;
          base_url = ''http://export.arxiv.org/api/query?'';
          from_datetime = replace CHR '':'' [] (replace CHR '' '' [] (replace CHR ''-'' [] start_datetime));
          to_datetime = replace CHR '':'' [] (replace CHR '' '' [] (replace CHR ''-'' [] end_datetime));
          query = ''search_query=('' @ search_query @ '')+AND+submittedDate:['' @ from_datetime
                    @ ''+TO+'' @ to_datetime @ '']''
      in base_url @ query @ ''&start=0&max_results='' @ str_int max_results)"

subsection \<open>The retry loop\<close>

text \<open>
  What \<^verbatim>\<open>requests.get(url)\<close> does is the network's choice: it raises, or returns a response.
  The body of a response is kept as \<^verbatim>\<open>ElementTree.fromstring\<close> reads it: not well-formed
  (\<^verbatim>\<open>ParseError\<close>), or the root element.
\<close>

datatype element =
  Element (tag: string) (attrib: "(string \<times> string) list") (elem_text: "string option")
    (children: "element list")

datatype body = Malformed | Document element

datatype http_result = Raises | Response (status_code: int) (content: body)

text \<open>
  The loop over \<^verbatim>\<open>range(3)\<close>. \<open>net attempt url\<close> is the outcome of the request made in
  iteration \<open>attempt\<close>; \<open>response\<close> is the local variable (unbound at first); the list of
  requests made so far is threaded through and returned. \<open>Inr\<close> is the loop left by
  \<^verbatim>\<open>break\<close> or run to its end, \<open>Inl\<close> the exception raised at \<^verbatim>\<open>attempt == 2\<close>.
  \<^verbatim>\<open>time.sleep(3)\<close> and the log lines are not modelled.
\<close>

definition fetch_failed :: pyerr where
  "fetch_failed = Exception ''Failed to fetch results from arXiv API after 3 attempts''"

fun for_attempts ::
  "(nat \<Rightarrow> string \<Rightarrow> http_result) \<Rightarrow> string \<Rightarrow> nat list \<Rightarrow> http_result option \<Rightarrow> string list
     \<Rightarrow> (pyerr + http_result option) \<times> string list" where
  "for_attempts net url [] response reqs = (Inr response, reqs)"
| "for_attempts net url (attempt # rest) response reqs =
     (case net attempt url of
        Response st b \<Rightarrow>
          if st = 200 then (Inr (Some (Response st b)), reqs @ [url])
          else if attempt = 2 then (Inl fetch_failed, reqs @ [url])
          else for_attempts net url rest (Some (Response st b)) (reqs @ [url])
      | Raises \<Rightarrow>
          if attempt = 2 then (Inl fetch_failed, reqs @ [url])
          else for_attempts net url rest response (reqs @ [url]))"

subsection \<open>Reading the feed\<close>

definition find_child :: "element \<Rightarrow> string \<Rightarrow> element option" where
  "find_child e t = List.find (\<lambda>c. tag c = t) (children e)"

definition findall :: "element \<Rightarrow> string \<Rightarrow> element list" where
  "findall e t = filter (\<lambda>c. tag c = t) (children e)"

text \<open>\<^verbatim>\<open>e.text\<close> and \<^verbatim>\<open>e.attrib\<close> on what \<^verbatim>\<open>find\<close> returned: \<^verbatim>\<open>None\<close> has neither.\<close>

definition text_of :: "element option \<Rightarrow> pyerr + string option" where
  "text_of r = (case r of None \<Rightarrow> Inl AttributeError | Some e \<Rightarrow> Inr (elem_text e))"

definition term_of :: "element \<Rightarrow> string option" where
  "term_of e = map_of (attrib e) ''term''"

text \<open>\<^verbatim>\<open>datetime.strptime(x, format)\<close> where \<open>x\<close> may be \<^verbatim>\<open>None\<close>.\<close>

definition strptime_text :: "string option \<Rightarrow> string \<Rightarrow> pyerr + datetime" where
  "strptime_text x format = (case x of None \<Rightarrow> Inl TypeError | Some s \<Rightarrow> strptime s format)"

fun mapE :: "('a \<Rightarrow> pyerr + 'b) \<Rightarrow> 'a list \<Rightarrow> pyerr + 'b list" where
  "mapE f [] = Inr []"
| "mapE f (x # xs) = bindE (f x) (\<lambda>y. bindE (mapE f xs) (\<lambda>ys. Inr (y # ys)))"

record result =
  title :: "string option"
  link :: "string option"
  authors :: "string option list"
  updated :: datetime
  published :: datetime
  summary :: "string option"
  comment :: "string option"
  primary_category :: "string option"
  categories :: "string option list"

definition atom :: "string \<Rightarrow> string" where
  "atom name = ''{http://www.w3.org/2005/Atom}'' @ name"

definition arxiv :: "string \<Rightarrow> string" where
  "arxiv name = ''{http://arxiv.org/schemas/atom}'' @ name"

definition feed_time :: string where
  "feed_time = ''%Y-%m-%dT%H:%M:%SZ''"

text \<open>The body of the loop over the entries, lines 97 to 120, in the order of the source.\<close>

definition parse_entry :: "element \<Rightarrow> pyerr + result" where
  "parse_entry entry =
     bindE (text_of (find_child entry (atom ''title''))) (\<lambda>title'.
     bindE (text_of (find_child entry (atom ''id''))) (\<lambda>link'.
     bindE (mapE (\<lambda>author. text_of (find_child author (atom ''name'')))
              (findall entry (atom ''author''))) (\<lambda>authors'.
     bindE (bindE (text_of (find_child entry (atom ''updated''))) (\<lambda>x. strptime_text x feed_time))
       (\<lambda>updated'.
     bindE (bindE (text_of (find_child entry (atom ''published''))) (\<lambda>x. strptime_text x feed_time))
       (\<lambda>published'.
     bindE (text_of (find_child entry (atom ''summary''))) (\<lambda>summary'.
     let comment_text = (case find_child entry (arxiv ''comment'') of
                           None \<Rightarrow> Some [] | Some c \<Rightarrow> elem_text c)
     in
     bindE (case find_child entry (arxiv ''primary_category'') of
              None \<Rightarrow> Inl AttributeError | Some p \<Rightarrow> Inr (term_of p)) (\<lambda>primary.
     let cats = map term_of (findall entry (arxiv ''category''));
         cats = (if primary \<notin> set cats then primary # cats else cats)
     in Inr \<lparr>title = title', link = link', authors = authors', updated = updated',
             published = published', summary = summary', comment = comment_text,
             primary_category = primary, categories = cats\<rparr>)))))))"

text \<open>
  \<^verbatim>\<open>list.sort(key=..., reverse=True)\<close> reverses the list, sorts it stably in ascending order
  of the key and reverses it again.
\<close>

definition sort_reverse :: "('a \<Rightarrow> 'k::linorder) \<Rightarrow> 'a list \<Rightarrow> 'a list" where
  "sort_reverse key xs = rev (sort_key key (rev xs))"

definition parse_feed :: "body \<Rightarrow> pyerr + result list" where
  "parse_feed data =
     (case data of
        Malformed \<Rightarrow> Inl ParseError
      | Document root \<Rightarrow>
          bindE (mapE parse_entry (findall root (atom ''entry''))) (\<lambda>results.
            Inr (sort_reverse (\<lambda>x. dt_key (published x)) results)))"

text \<open>
  The whole function: the value returned or the exception raised, and the requests made.
  After the loop \<^verbatim>\<open>response.content\<close> is read; were the loop to end with \<^verbatim>\<open>response\<close> unbound
  or bound to a failure, that would be where it shows.
\<close>

definition search_arxiv_api ::
  "(nat \<Rightarrow> string \<Rightarrow> http_result) \<Rightarrow> string \<Rightarrow> string \<Rightarrow> string \<Rightarrow> int
     \<Rightarrow> (pyerr + result list) \<times> string list" where
  "search_arxiv_api net search_query start_datetime end_datetime max_results =
     (let url = build_url search_query start_datetime end_datetime max_results
      in case for_attempts net url [0, 1, 2] None [] of
           (Inl e, reqs) \<Rightarrow> (Inl e, reqs)
         | (Inr None, reqs) \<Rightarrow> (Inl UnboundLocalError, reqs)
         | (Inr (Some Raises), reqs) \<Rightarrow> (Inl UnboundLocalError, reqs)
         | (Inr (Some (Response st data)), reqs) \<Rightarrow> (parse_feed data, reqs))"

section \<open>\<^verbatim>\<open>process_user_data\<close>\<close>

subsection \<open>The state and the environment\<close>

text \<open>
  A user record is the dictionary \<^verbatim>\<open>yaml.safe_load\<close> returns; its values are strings here,
  as the records the program writes are. \<open>args\<close> is the \<^verbatim>\<open>argparse\<close> namespace, which
  \<^verbatim>\<open>process_user_data\<close> mutates; the module globals read from the configuration are \<open>config\<close>.
\<close>

type_synonym user_data = "string \<rightharpoonup> string"

record args =
  test :: bool
  print_only :: bool
  no_update :: bool

record config =
  SMTP_SERVER :: string
  SMTP_PORT :: int
  FROM_ADDRESS :: string

record email =
  msg_from :: string
  msg_to :: string
  msg_subject :: string
  msg_body :: string

text \<open>
  What the program changes outside itself: the files (absent, not parsable as YAML, or a
  document), the mail handed to the SMTP server, what was printed, and the requests sent
  to the search API.
\<close>

datatype yaml_file = Unparsable | Doc user_data

record world =
  files :: "string \<rightharpoonup> yaml_file"
  outbox :: "email list"
  stdout :: "string list"
  requested :: "string list"

text \<open>
  What the outside answers during one user's cycle: the clock at line 43 and at line 201,
  each request of the search, the SMTP session (\<open>None\<close>: the mail was accepted), and
  \<^verbatim>\<open>open(path, "w")\<close> (\<open>None\<close>: the file was opened).
\<close>

record cycle_env =
  now_range :: datetime
  network :: "nat \<Rightarrow> string \<Rightarrow> http_result"
  smtp :: "string \<Rightarrow> int \<Rightarrow> email \<Rightarrow> pyerr option"
  now_update :: datetime
  open_w :: "string \<Rightarrow> pyerr option"

subsection \<open>The message\<close>

definition str_opt :: "string option \<Rightarrow> string" where
  "str_opt x = (case x of None \<Rightarrow> ''None'' | Some s \<Rightarrow> s)"

fun join_strs :: "string \<Rightarrow> string list \<Rightarrow> string" where
  "join_strs sep [] = []"
| "join_strs sep [x] = x"
| "join_strs sep (x # y # ys) = x @ sep @ join_strs sep (y # ys)"

text \<open>\<^verbatim>\<open>sep.join(xs)\<close> raises \<^verbatim>\<open>TypeError\<close> when an item is \<^verbatim>\<open>None\<close>.\<close>

definition join :: "string \<Rightarrow> string option list \<Rightarrow> pyerr + string" where
  "join sep xs = (case those xs of None \<Rightarrow> Inl TypeError | Some ys \<Rightarrow> Inr (join_strs sep ys))"

definition dq :: string where
  "dq = [CHR 0x22]"

definition result_html :: "result \<Rightarrow> pyerr + string" where
  "result_html r =
     bindE (join '', '' (authors r)) (\<lambda>names.
       Inr (''<p><strong>Title:</strong> <a href='' @ dq @ str_opt (link r) @ dq @ ''>''
              @ str_opt (title r) @ ''</a><br>\<newline>''
            @ ''<strong>Authors:</strong> '' @ names @ ''<br>\<newline>''
            @ strftime (published r) canonical @ ''<br>\<newline>''
            @ ''<i>Summary:</i> '' @ str_opt (summary r) @ ''</p>\<newline>''
            @ ''<hr>\<newline>''))"

definition format_results :: "result list \<Rightarrow> pyerr + string" where
  "format_results search_results =
     (if search_results \<noteq> [] then
        bindE (mapE result_html search_results) (\<lambda>parts. Inr (concat parts))
      else Inr ''<p>No new articles found based on your search query since the last run.</p>'')"

definition compose_subject :: "string \<Rightarrow> string \<Rightarrow> string \<Rightarrow> string" where
  "compose_subject date_from date_to user_name =
     ''Your Weekly SONAR ('' @ date_from @ '' to '' @ date_to @ '', '' @ user_name @ '')''"

definition compose_body :: "string \<Rightarrow> string \<Rightarrow> string \<Rightarrow> string \<Rightarrow> string \<Rightarrow> string" where
  "compose_body user_name date_from date_to results_html search_query =
     ''<html>\<newline><head></head>\<newline><body>\<newline>''
     @ ''    <p>Hello '' @ user_name @ '',</p>\<newline>''
     @ ''    <p>Here are the arXiv updates since the last time this program was run (''
         @ date_from @ '' to '' @ date_to @ ''):</p>\<newline>''
     @ ''    '' @ results_html @ ''\<newline>''
     @ ''    <p>Your search query was: <i>'' @ search_query @ ''</i></p>\<newline>''
     @ ''    <p>We thank arXiv for use of its open access interoperability.</p>\<newline>''
     @ ''    <p>Best regards, SONAR</p>\<newline>''
     @ ''</body>\<newline></html>''"

text \<open>Lines 159 to 175: the message, with the query as the user stored it.\<close>

definition compose_message ::
  "config \<Rightarrow> string \<Rightarrow> string \<Rightarrow> string \<Rightarrow> string \<Rightarrow> string \<Rightarrow> string \<Rightarrow> email" where
  "compose_message cfg user_name email_address search_query date_from date_to results_html =
     \<lparr>msg_from = FROM_ADDRESS cfg, msg_to = email_address,
      msg_subject = compose_subject date_from date_to user_name,
      msg_body = compose_body user_name date_from date_to results_html search_query\<rparr>"

subsection \<open>Delivery and the update of \<^verbatim>\<open>last_run\<close>\<close>

text \<open>
  Lines 184 to 197: with \<^verbatim>\<open>print_only\<close> the message is printed and counts as sent; otherwise
  one SMTP session is tried, and any exception of it leaves \<^verbatim>\<open>email_sent\<close> false.
\<close>

definition send_or_print ::
  "config \<Rightarrow> cycle_env \<Rightarrow> args \<Rightarrow> string \<Rightarrow> string \<Rightarrow> string \<Rightarrow> email \<Rightarrow> world \<Rightarrow> bool \<times> world" where
  "send_or_print cfg env a email_address subject body msg w =
     (if print_only a then
        (True, w\<lparr>stdout := stdout w @
           [''Print-Only Mode: Email to '' @ email_address @ '':\<newline>Subject: '' @ subject
              @ ''\<newline>Body:\<newline>'' @ body @ ''\<newline>'']\<rparr>)
      else
        (case smtp env (SMTP_SERVER cfg) (SMTP_PORT cfg) msg of
           None \<Rightarrow> (True, w\<lparr>outbox := outbox w @ [msg]\<rparr>)
         | Some e \<Rightarrow> (False, w)))"

text \<open>
  Lines 199 to 206: \<^verbatim>\<open>last_run\<close> is set in the dictionary first, then the file named by
  \<^verbatim>\<open>user_data["filepath"]\<close> is opened for writing and the dictionary, without \<^verbatim>\<open>filepath\<close>,
  is dumped to it. The result is the exception that escapes, if any, with the dictionary
  and the world as they are then.
\<close>

definition update_last_run ::
  "cycle_env \<Rightarrow> bool \<Rightarrow> args \<Rightarrow> user_data \<Rightarrow> world \<Rightarrow> pyerr option \<times> user_data \<times> world" where
  "update_last_run env email_sent a user_data w =
     (if email_sent \<and> \<not> no_update a then
        (let user_data = user_data(''last_run'' \<mapsto> strftime (now_update env) canonical)
         in case user_data ''filepath'' of
              None \<Rightarrow> (Some (KeyError ''filepath''), user_data, w)
            | Some path \<Rightarrow>
                (case open_w env path of
                   Some e \<Rightarrow> (Some e, user_data, w)
                 | None \<Rightarrow>
                     (None, user_data,
                      w\<lparr>files := (files w)(path \<mapsto> Doc (user_data(''filepath'' := None)))\<rparr>)))
      else (None, user_data, w))"

subsection \<open>One user's cycle\<close>

text \<open>
  The result is the exception that leaves the function (\<open>None\<close> when it returns), the
  dictionary, the namespace and the world. Only the search is inside a \<^verbatim>\<open>try\<close> that
  returns; the lookups, \<^verbatim>\<open>compute_weekly_range\<close>, the formatting and the write are not.
\<close>

definition process_user_data ::
  "config \<Rightarrow> cycle_env \<Rightarrow> user_data \<Rightarrow> args \<Rightarrow> world \<Rightarrow> pyerr option \<times> user_data \<times> args \<times> world" where
  "process_user_data cfg env user_data a w =
     (case user_data ''user'' of
        None \<Rightarrow> (Some (KeyError ''user''), user_data, a, w)
      | Some user_name \<Rightarrow>
     (case user_data ''email_address'' of
        None \<Rightarrow> (Some (KeyError ''email_address''), user_data, a, w)
      | Some email_address \<Rightarrow>
     (case user_data ''search_query'' of
        None \<Rightarrow> (Some (KeyError ''search_query''), user_data, a, w)
      | Some search_query \<Rightarrow>
     (case compute_weekly_range (now_range env) (user_data ''last_run'') of
        Inl e \<Rightarrow> (Some e, user_data, a, w)
      | Inr (date_from, date_to) \<Rightarrow>
     (case search_arxiv_api (network env) search_query date_from date_to 100 of
        (Inl e, reqs) \<Rightarrow> (None, user_data, a, w\<lparr>requested := requested w @ reqs\<rparr>)
      | (Inr search_results, reqs) \<Rightarrow>
     (let w = w\<lparr>requested := requested w @ reqs\<rparr>
      in case format_results search_results of
           Inl e \<Rightarrow> (Some e, user_data, a, w)
         | Inr results_html \<Rightarrow>
     (let msg = compose_message cfg user_name email_address search_query date_from date_to
                  results_html;
          a = (if test a then a\<lparr>print_only := True, no_update := True\<rparr> else a)
      in case send_or_print cfg env a email_address (msg_subject msg) (msg_body msg) msg w of
           (email_sent, w) \<Rightarrow>
             (case update_last_run env email_sent a user_data w of
                (exc, user_data, w) \<Rightarrow> (exc, user_data, a, w)))))))))"

section \<open>The main program\<close>

definition endswith :: "string \<Rightarrow> string \<Rightarrow> bool" where
  "endswith s suf = (length suf \<le> length s \<and> drop (length s - length suf) s = suf)"

text \<open>\<^verbatim>\<open>os.path.join\<close> of a directory and a name.\<close>

definition path_join :: "string \<Rightarrow> string \<Rightarrow> string" where
  "path_join a b =
     (if b \<noteq> [] \<and> hd b = CHR ''/'' then b
      else if a = [] \<or> last a = CHR ''/'' then a @ b
      else a @ ''/'' @ b)"

text \<open>\<^verbatim>\<open>open(path, "r")\<close> followed by \<^verbatim>\<open>yaml.safe_load\<close>.\<close>

definition load_user :: "world \<Rightarrow> string \<Rightarrow> pyerr + user_data" where
  "load_user w path =
     (case files w path of
        None \<Rightarrow> Inl FileNotFoundError
      | Some Unparsable \<Rightarrow> Inl YAMLError
      | Some (Doc d) \<Rightarrow> Inr d)"

text \<open>The two \<^verbatim>\<open>except\<close> clauses around a user: these exceptions are logged, others escape.\<close>

definition caught :: "pyerr \<Rightarrow> bool" where
  "caught e = (e = FileNotFoundError \<or> e = YAMLError)"

text \<open>
  The loop over \<^verbatim>\<open>os.listdir(users_dir)\<close>, lines 233 to 244. \<open>env_of path\<close> is what the
  outside answers during the cycle of the user stored at \<open>path\<close>. An exception that is not
  caught ends the loop and the program.
\<close>

fun for_files ::
  "config \<Rightarrow> (string \<Rightarrow> cycle_env) \<Rightarrow> string \<Rightarrow> string list \<Rightarrow> args \<Rightarrow> world
     \<Rightarrow> pyerr option \<times> args \<times> world" where
  "for_files cfg env_of users_dir [] a w = (None, a, w)"
| "for_files cfg env_of users_dir (filename # rest) a w =
     (if endswith filename ''.yaml'' then
        (let filepath = path_join users_dir filename
         in case load_user w filepath of
              Inl e \<Rightarrow>
                if caught e then for_files cfg env_of users_dir rest a w else (Some e, a, w)
            | Inr user_data \<Rightarrow>
                (case process_user_data cfg (env_of filepath)
                        (user_data(''filepath'' \<mapsto> filepath)) a w of
                   (None, _, a', w') \<Rightarrow> for_files cfg env_of users_dir rest a' w'
                 | (Some e, _, a', w') \<Rightarrow>
                     if caught e then for_files cfg env_of users_dir rest a' w'
                     else (Some e, a', w')))
      else for_files cfg env_of users_dir rest a w)"

text \<open>Lines 228 to 244: \<open>listing\<close> is \<^verbatim>\<open>None\<close> when \<^verbatim>\<open>users_dir\<close> is not a directory.\<close>

definition run_users_dir ::
  "config \<Rightarrow> (string \<Rightarrow> cycle_env) \<Rightarrow> string \<Rightarrow> string list option \<Rightarrow> args \<Rightarrow> world
     \<Rightarrow> pyerr option \<times> args \<times> world" where
  "run_users_dir cfg env_of users_dir listing a w =
     (case listing of
        None \<Rightarrow> (None, a, w)
      | Some filenames \<Rightarrow> for_files cfg env_of users_dir filenames a w)"

text \<open>Lines 245 to 254: a single file; the dictionary gets no \<^verbatim>\<open>filepath\<close> here.\<close>

definition run_user_file ::
  "config \<Rightarrow> cycle_env \<Rightarrow> string \<Rightarrow> args \<Rightarrow> world \<Rightarrow> pyerr option \<times> args \<times> world" where
  "run_user_file cfg env user_file a w =
     (case load_user w user_file of
        Inl e \<Rightarrow> if caught e then (None, a, w) else (Some e, a, w)
      | Inr user_data \<Rightarrow>
          (case process_user_data cfg env user_data a w of
             (None, _, a', w') \<Rightarrow> (None, a', w')
           | (Some e, _, a', w') \<Rightarrow> if caught e then (None, a', w') else (Some e, a', w')))"

section \<open>Notions used in the statements\<close>

text \<open>The items of the canonical format, as \<open>pattern\<close> computes them.\<close>

definition canonical_items :: "item list" where
  "canonical_items =
     [Group CHR ''Y'' (the (TimeRE CHR ''Y'')), Lit CHR ''-'',
      Group CHR ''m'' (the (TimeRE CHR ''m'')), Lit CHR ''-'',
      Group CHR ''d'' (the (TimeRE CHR ''d'')), Spaces,
      Group CHR ''H'' (the (TimeRE CHR ''H'')), Lit CHR '':'',
      Group CHR ''M'' (the (TimeRE CHR ''M'')), Lit CHR '':'',
      Group CHR ''S'' (the (TimeRE CHR ''S''))]"



text \<open>The category terms an entry lists, in the order of the feed.\<close>

definition listed :: "element \<Rightarrow> string option list" where
  "listed entry = map term_of (findall entry (arxiv ''category''))"

text \<open>The \<^verbatim>\<open>last_run\<close> stored in the file at \<open>path\<close>, if there is one.\<close>

definition stored_last_run :: "world \<Rightarrow> string \<Rightarrow> string option" where
  "stored_last_run w path =
     (case files w path of Some (Doc d) \<Rightarrow> d ''last_run'' | _ \<Rightarrow> None)"


section \<open>Example inputs\<close>

definition entry_xml :: "string \<Rightarrow> string \<Rightarrow> string \<Rightarrow> string list \<Rightarrow> element" where
  "entry_xml ttl pub prim cats =
     Element (atom ''entry'') [] None
       ([Element (atom ''title'') [] (Some ttl) [],
         Element (atom ''id'') [] (Some ''http://arxiv.org/abs/1'') [],
         Element (atom ''author'') [] None [Element (atom ''name'') [] (Some ''A. Author'') []],
         Element (atom ''updated'') [] (Some pub) [],
         Element (atom ''published'') [] (Some pub) [],
         Element (atom ''summary'') [] (Some ''S'') [],
         Element (arxiv ''primary_category'') [(''term'', prim)] None []]
        @ map (\<lambda>c. Element (arxiv ''category'') [(''term'', c)] None []) cats)"

definition feed2 :: body where
  "feed2 = Document (Element (atom ''feed'') [] None
     [entry_xml ''Old'' ''2024-01-01T00:00:00Z'' ''cs.DM'' [''math.CO'', ''cs.DM''],
      entry_xml ''New'' ''2024-01-02T10:30:00Z'' ''cs.LG'' [''cs.LG'']])"

definition net_ok :: "nat \<Rightarrow> string \<Rightarrow> http_result" where
  "net_ok i url = Response 200 feed2"



definition t_range :: datetime where
  "t_range = \<lparr>year = 2024, month = 3, day = 1, hour = 12, minute = 0, second = 0,
              microsecond = 250000\<rparr>"

definition t_update :: datetime where
  "t_update = \<lparr>year = 2024, month = 3, day = 1, hour = 12, minute = 0, second = 5,
               microsecond = 125000\<rparr>"

definition t_next :: datetime where
  "t_next = \<lparr>year = 2024, month = 3, day = 8, hour = 9, minute = 0, second = 0,
             microsecond = 0\<rparr>"

definition alice :: user_data where
  "alice = [''user'' \<mapsto> ''Alice'', ''email_address'' \<mapsto> ''alice@example.org'',
            ''search_query'' \<mapsto> ''cat:cs.LG\<newline>AND all:proof'']"

definition nameless :: user_data where
  "nameless = [''email_address'' \<mapsto> ''bob@example.org'', ''search_query'' \<mapsto> ''cat:cs.DM'']"

definition cfg0 :: config where
  "cfg0 = \<lparr>SMTP_SERVER = ''localhost'', SMTP_PORT = 25, FROM_ADDRESS = ''example@example.com''\<rparr>"

definition args_none :: args where
  "args_none = \<lparr>test = False, print_only = False, no_update = False\<rparr>"



definition env_ok :: cycle_env where
  "env_ok = \<lparr>now_range = t_range, network = net_ok, smtp = (\<lambda>host port msg. None),
             now_update = t_update, open_w = (\<lambda>path. None)\<rparr>"




definition envs_ok :: "string \<Rightarrow> cycle_env" where
  "envs_ok path = env_ok"



definition world0 :: world where
  "world0 = \<lparr>files = [''alice.yaml'' \<mapsto> Doc alice], outbox = [], stdout = [], requested = []\<rparr>"


definition world_dir :: world where
  "world_dir = \<lparr>files = [''users/a.yaml'' \<mapsto> Doc nameless, ''users/b.yaml'' \<mapsto> Doc alice],
                outbox = [], stdout = [], requested = []\<rparr>"

definition res_new :: result where
  "res_new =
     \<lparr>title = Some ''New'', link = Some ''http://arxiv.org/abs/1'', authors = [Some ''A. Author''],
      updated = \<lparr>year = 2024, month = 1, day = 2, hour = 10, minute = 30, second = 0, microsecond = 0\<rparr>,
      published = \<lparr>year = 2024, month = 1, day = 2, hour = 10, minute = 30, second = 0, microsecond = 0\<rparr>,
      summary = Some ''S'', comment = Some [], primary_category = Some ''cs.LG'',
      categories = [Some ''cs.LG'']\<rparr>"

definition res_old :: result where
  "res_old =
     \<lparr>title = Some ''Old'', link = Some ''http://arxiv.org/abs/1'', authors = [Some ''A. Author''],
      updated = \<lparr>year = 2024, month = 1, day = 1, hour = 0, minute = 0, second = 0, microsecond = 0\<rparr>,
      published = \<lparr>year = 2024, month = 1, day = 1, hour = 0, minute = 0, second = 0, microsecond = 0\<rparr>,
      summary = Some ''S'', comment = Some [], primary_category = Some ''cs.DM'',
      categories = [Some ''math.CO'', Some ''cs.DM'']\<rparr>"

definition q0 :: string where
  "q0 = ''cat:cs.LG\<newline>AND all:proof''"

definition url0 :: string where
  "url0 = ''http://export.arxiv.org/api/query?search_query=(cat:cs.LG AND all:proof)+AND+submittedDate:[20240223120000+TO+20240301120000]&start=0&max_results=100''"

definition alice_b :: user_data where
  "alice_b = alice(''filepath'' \<mapsto> ''users/b.yaml'')"



definition after_first :: world where
  "after_first =
     snd (snd (run_users_dir cfg0 envs_ok ''users'' (Some [''b.yaml'']) args_none world_dir))"


definition last_second :: datetime where
  "last_second = \<lparr>year = 9999, month = 12, day = 31, hour = 23, minute = 59, second = 59,
                  microsecond = 0\<rparr>"



definition single_file_sent :: "pyerr option \<times> args \<times> world" where
  "single_file_sent = run_user_file cfg0 env_ok ''alice.yaml'' args_none world0"




section \<open>Lemmas about the library model\<close>

lemma bindE_simps [simp]: "bindE (Inl e) f = Inl e" "bindE (Inr v) f = f v"
  by (simp_all add: bindE_def)

lemma of_char_digit_char: "n \<le> 9 \<Longrightarrow> (of_char (digit_char n) :: nat) = 48 + nat n"
  by (simp add: digit_char_def)

lemma is_digit_digit_char [simp]: "n \<le> 9 \<Longrightarrow> is_digit (digit_char n)"
  by (simp add: is_digit_def of_char_digit_char)

lemma digit_val_digit_char [simp]: "0 \<le> n \<Longrightarrow> n \<le> 9 \<Longrightarrow> digit_val (digit_char n) = n"
  by (simp add: digit_val_def of_char_digit_char)

lemma digit_char_eq_iff: "n \<le> 9 \<Longrightarrow> digit_char n = c \<longleftrightarrow> (of_char c :: nat) = 48 + nat n"
  by (metis of_char_digit_char of_char_eq_iff)

lemma not_space_digit_char [simp]: "n \<le> 9 \<Longrightarrow> \<not> is_space (digit_char n)"
  by (auto simp add: is_space_def of_char_digit_char Let_def)

lemma lower_digit_char [simp]: "n \<le> 9 \<Longrightarrow> ascii_lower (digit_char n) = digit_char n"
  by (auto simp add: ascii_lower_def of_char_digit_char Let_def)

lemma strftime_canonical:
  "strftime t canonical =
     str_int (year t) @ ''-'' @ pad2 (month t) @ ''-'' @ pad2 (day t) @ '' '' @ pad2 (hour t)
       @ '':'' @ pad2 (minute t) @ '':'' @ pad2 (second t)"
  by (simp add: canonical_def strftime_directive_def)

lemma is_space_blank: "is_space CHR '' ''" "\<not> is_space CHR ''%''" "\<not> is_space CHR ''-''" "\<not> is_space CHR '':''"
  "\<not> is_space CHR ''Y''" "\<not> is_space CHR ''m''" "\<not> is_space CHR ''d''" "\<not> is_space CHR ''H''"
  "\<not> is_space CHR ''M''" "\<not> is_space CHR ''S''"
  by (simp_all add: is_space_def)

lemma pattern_canonical: "pattern canonical = Inr canonical_items"
  by (simp add: canonical_def canonical_items_def is_space_blank TimeRE_def)

lemma re_match_Nil [simp]: "re_match [] s = Some ([], s)"
  by (simp add: re_match_def)

lemma re_match_Lit [simp]:
  "re_match (Lit c # its) (x # xs) = (if ascii_lower x = ascii_lower c then re_match its xs else None)"
  "re_match (Lit c # its) [] = None"
  by (simp_all add: re_match_def)

lemma re_match_Group_Nil [simp]: "re_match (Group g [] # its) s = None"
  by (simp add: re_match_def)

lemma matches_Group_Cons:
  "matches (Group g (a # alts) # its) s =
     (case match_alt a s of
        None \<Rightarrow> []
      | Some (t, r) \<Rightarrow> map (\<lambda>(found, rest). ((g, t) # found, rest)) (matches its r))
     @ matches (Group g alts # its) s"
  by (simp add: List.map_filter_simps split: option.splits)

lemma re_match_Group_Cons:
  "re_match (Group g (a # alts) # its) s =
     (case match_alt a s of
        None \<Rightarrow> re_match (Group g alts # its) s
      | Some (t, r) \<Rightarrow>
          (case re_match its r of
             None \<Rightarrow> re_match (Group g alts # its) s
           | Some (found, rest) \<Rightarrow> Some ((g, t) # found, rest)))"
  unfolding re_match_def matches_Group_Cons
  by (simp del: matches.simps split: option.splits list.splits prod.splits)

lemma re_match_Spaces_one:
  "\<not> is_space x \<Longrightarrow> re_match (Spaces # its) (CHR '' '' # x # xs) = re_match its (x # xs)"
  by (simp add: re_match_def is_space_blank)

lemmas group_simps =
  TimeRE_def re_match_Group_Cons in_class_def of_char_digit_char digit_char_eq_iff

lemma group_m:
  assumes "0 \<le> a" "0 \<le> b" "b \<le> 9" "1 \<le> 10 * a + b" "10 * a + b \<le> 12"
    and "re_match its r = Some (found, rest)"
  shows "re_match (Group CHR ''m'' (the (TimeRE CHR ''m'')) # its) (digit_char a # digit_char b # r)
           = Some ((CHR ''m'', [digit_char a, digit_char b]) # found, rest)"
proof -
  from assms have "a = 0 \<or> a = 1" by arith
  then show ?thesis using assms by (auto simp add: group_simps)
qed

lemma group_d:
  assumes "0 \<le> a" "0 \<le> b" "b \<le> 9" "1 \<le> 10 * a + b" "10 * a + b \<le> 31"
    and "re_match its r = Some (found, rest)"
  shows "re_match (Group CHR ''d'' (the (TimeRE CHR ''d'')) # its) (digit_char a # digit_char b # r)
           = Some ((CHR ''d'', [digit_char a, digit_char b]) # found, rest)"
proof -
  from assms have "a = 0 \<or> a = 1 \<or> a = 2 \<or> a = 3" by arith
  then show ?thesis using assms by (auto simp add: group_simps)
qed

lemma group_H:
  assumes "0 \<le> a" "0 \<le> b" "b \<le> 9" "10 * a + b \<le> 23"
    and "re_match its r = Some (found, rest)"
  shows "re_match (Group CHR ''H'' (the (TimeRE CHR ''H'')) # its) (digit_char a # digit_char b # r)
           = Some ((CHR ''H'', [digit_char a, digit_char b]) # found, rest)"
proof -
  from assms have "a = 0 \<or> a = 1 \<or> a = 2" by arith
  then show ?thesis using assms by (auto simp add: group_simps)
qed

lemma group_M:
  assumes "0 \<le> a" "0 \<le> b" "b \<le> 9" "10 * a + b \<le> 59"
    and "re_match its r = Some (found, rest)"
  shows "re_match (Group CHR ''M'' (the (TimeRE CHR ''M'')) # its) (digit_char a # digit_char b # r)
           = Some ((CHR ''M'', [digit_char a, digit_char b]) # found, rest)"
proof -
  from assms have "a \<le> 5" by arith
  then show ?thesis using assms by (auto simp add: group_simps)
qed

lemma group_S:
  assumes "0 \<le> a" "0 \<le> b" "b \<le> 9" "10 * a + b \<le> 59"
    and "re_match its r = Some (found, rest)"
  shows "re_match (Group CHR ''S'' (the (TimeRE CHR ''S'')) # its) (digit_char a # digit_char b # r)
           = Some ((CHR ''S'', [digit_char a, digit_char b]) # found, rest)"
proof -
  from assms have "a \<le> 5" by arith
  then show ?thesis using assms by (auto simp add: group_simps)
qed

lemma group_Y:
  assumes "a \<le> 9" "b \<le> 9" "c \<le> 9" "d \<le> 9"
    and "re_match its r = Some (found, rest)"
  shows "re_match (Group CHR ''Y'' (the (TimeRE CHR ''Y'')) # its)
            (digit_char a # digit_char b # digit_char c # digit_char d # r)
           = Some ((CHR ''Y'', [digit_char a, digit_char b, digit_char c, digit_char d]) # found, rest)"
  using assms by (auto simp add: group_simps)

lemma str_int_4:
  assumes "1000 \<le> y" "y \<le> 9999"
  shows "str_int y = [digit_char (y div 1000), digit_char (y div 100 mod 10),
                      digit_char (y div 10 mod 10), digit_char (y mod 10)]"
proof -
  have e: "y div 10 div 10 = y div 100" "y div 100 div 10 = y div 1000"
    by (simp_all add: div_mult2_eq [symmetric])
  have r: "10 \<le> y" "10 \<le> y div 10" "10 \<le> y div 100" "y div 1000 < 10"
    using assms by simp_all
  have a: "str_int y = str_int (y div 10) @ [digit_char (y mod 10)]"
    using r by (subst str_int.simps) simp
  have b: "str_int (y div 10) = str_int (y div 100) @ [digit_char (y div 10 mod 10)]"
    using r e by (subst str_int.simps) simp
  have c: "str_int (y div 100) = str_int (y div 1000) @ [digit_char (y div 100 mod 10)]"
    using r e by (subst str_int.simps) simp
  have d: "str_int (y div 1000) = [digit_char (y div 1000)]"
    using r by (subst str_int.simps) simp
  show ?thesis by (simp only: a b c d append.simps)
qed

lemma py_int_2:
  "0 \<le> a \<Longrightarrow> a \<le> 9 \<Longrightarrow> 0 \<le> b \<Longrightarrow> b \<le> 9 \<Longrightarrow> py_int [digit_char a, digit_char b] = 10 * a + b"
  by (simp add: py_int_def)

lemma py_int_4:
  "0 \<le> a \<Longrightarrow> a \<le> 9 \<Longrightarrow> 0 \<le> b \<Longrightarrow> b \<le> 9 \<Longrightarrow> 0 \<le> c \<Longrightarrow> c \<le> 9 \<Longrightarrow> 0 \<le> d \<Longrightarrow> d \<le> 9 \<Longrightarrow>
   py_int [digit_char a, digit_char b, digit_char c, digit_char d] = 1000 * a + 100 * b + 10 * c + d"
  by (simp add: py_int_def)

lemma year_digits_sum:
  fixes y :: int
  shows "1000 * (y div 1000) + 100 * (y div 100 mod 10) + 10 * (y div 10 mod 10) + y mod 10 = y"
proof -
  define A B C D Y1 Y2 where "A = y div 1000" and "B = y div 100 mod 10" and "C = y div 10 mod 10"
    and "D = y mod 10" and "Y1 = y div 10" and "Y2 = y div 100"
  have e: "y div 10 div 10 = y div 100" "y div 100 div 10 = y div 1000"
    by (simp_all add: div_mult2_eq [symmetric])
  have a: "y = 10 * Y1 + D" unfolding Y1_def D_def by simp
  have b: "Y1 = 10 * Y2 + C" unfolding Y1_def Y2_def C_def e(1) [symmetric] by simp
  have c: "Y2 = 10 * A + B" unfolding Y2_def A_def B_def e(2) [symmetric] by simp
  have "1000 * A + 100 * B + 10 * C + D = y" using a b c by simp
  then show ?thesis unfolding A_def B_def C_def D_def .
qed

lemma year_digits_of:
  fixes y :: int
  assumes "1000 \<le> y" "y \<le> 9999"
  shows "0 \<le> y div 1000" "y div 1000 \<le> 9" "0 \<le> y div 100 mod 10" "y div 100 mod 10 \<le> 9"
    "0 \<le> y div 10 mod 10" "y div 10 mod 10 \<le> 9" "0 \<le> y mod 10" "y mod 10 \<le> 9"
  using assms by simp_all

lemma digits_of:
  fixes n :: int
  assumes "0 \<le> n" "n \<le> 99"
  shows "0 \<le> n div 10" "n div 10 \<le> 9" "0 \<le> n mod 10" "n mod 10 \<le> 9" "10 * (n div 10) + n mod 10 = n"
  using assms by simp_all

lemma month_cases:
  fixes m :: int
  assumes "1 \<le> m" "m \<le> 12"
  shows "m = 1 \<or> m = 2 \<or> m = 3 \<or> m = 4 \<or> m = 5 \<or> m = 6 \<or> m = 7 \<or> m = 8 \<or> m = 9 \<or> m = 10
           \<or> m = 11 \<or> m = 12"
  using assms by arith

lemma days_in_month_le:
  assumes "1 \<le> m" "m \<le> 12" shows "days_in_month y m \<le> 31"
  using month_cases [OF assms]
  by (elim disjE) (simp_all add: days_in_month_def DAYS_IN_MONTH_def)

lemma canonical_match_digits:
  assumes Y: "y3 \<le> 9" "y2 \<le> 9" "y1 \<le> 9" "y0 \<le> 9"
    and M: "0 \<le> m1" "0 \<le> m0" "m0 \<le> 9" "1 \<le> 10 * m1 + m0" "10 * m1 + m0 \<le> 12"
    and D: "0 \<le> d1" "0 \<le> d0" "d0 \<le> 9" "1 \<le> 10 * d1 + d0" "10 * d1 + d0 \<le> 31"
    and H: "0 \<le> h1" "0 \<le> h0" "h0 \<le> 9" "10 * h1 + h0 \<le> 23"
    and N: "0 \<le> n1" "0 \<le> n0" "n0 \<le> 9" "10 * n1 + n0 \<le> 59"
    and S: "0 \<le> s1" "0 \<le> s0" "s0 \<le> 9" "10 * s1 + s0 \<le> 59"
  shows "re_match canonical_items
           ([digit_char y3, digit_char y2, digit_char y1, digit_char y0] @ CHR ''-'' #
            [digit_char m1, digit_char m0] @ CHR ''-'' # [digit_char d1, digit_char d0] @ CHR '' '' #
            [digit_char h1, digit_char h0] @ CHR '':'' # [digit_char n1, digit_char n0] @ CHR '':'' #
            [digit_char s1, digit_char s0])
         = Some ([(CHR ''Y'', [digit_char y3, digit_char y2, digit_char y1, digit_char y0]),
                  (CHR ''m'', [digit_char m1, digit_char m0]),
                  (CHR ''d'', [digit_char d1, digit_char d0]),
                  (CHR ''H'', [digit_char h1, digit_char h0]),
                  (CHR ''M'', [digit_char n1, digit_char n0]),
                  (CHR ''S'', [digit_char s1, digit_char s0])], [])"
proof -
  have h1: "h1 \<le> 9" using H by linarith
  note s = group_S [OF S re_match_Nil]
  have "re_match [Lit CHR '':'', Group CHR ''S'' (the (TimeRE CHR ''S''))]
          (CHR '':'' # [digit_char s1, digit_char s0]) = Some ([(CHR ''S'', [digit_char s1, digit_char s0])], [])"
    using s by simp
  note n = group_M [OF N this]
  have "re_match (Lit CHR '':'' # Group CHR ''M'' (the (TimeRE CHR ''M'')) #
            [Lit CHR '':'', Group CHR ''S'' (the (TimeRE CHR ''S''))])
          (CHR '':'' # digit_char n1 # digit_char n0 # CHR '':'' # [digit_char s1, digit_char s0])
        = Some ([(CHR ''M'', [digit_char n1, digit_char n0]), (CHR ''S'', [digit_char s1, digit_char s0])], [])"
    using n by simp
  note h = group_H [OF H this]
  have "re_match (Spaces # Group CHR ''H'' (the (TimeRE CHR ''H'')) # Lit CHR '':'' # Group CHR ''M'' (the (TimeRE CHR ''M'')) #
            [Lit CHR '':'', Group CHR ''S'' (the (TimeRE CHR ''S''))])
          (CHR '' '' # digit_char h1 # digit_char h0 # CHR '':'' # digit_char n1 # digit_char n0 # CHR '':'' # [digit_char s1, digit_char s0])
        = Some ([(CHR ''H'', [digit_char h1, digit_char h0]), (CHR ''M'', [digit_char n1, digit_char n0]), (CHR ''S'', [digit_char s1, digit_char s0])], [])"
    using h h1 by (subst re_match_Spaces_one) simp_all
  note d = group_d [OF D this]
  have "re_match (Lit CHR ''-'' # Group CHR ''d'' (the (TimeRE CHR ''d'')) # Spaces # Group CHR ''H'' (the (TimeRE CHR ''H'')) # Lit CHR '':'' # Group CHR ''M'' (the (TimeRE CHR ''M'')) #
            [Lit CHR '':'', Group CHR ''S'' (the (TimeRE CHR ''S''))])
          (CHR ''-'' # digit_char d1 # digit_char d0 # CHR '' '' # digit_char h1 # digit_char h0 # CHR '':'' # digit_char n1 # digit_char n0 # CHR '':'' # [digit_char s1, digit_char s0])
        = Some ([(CHR ''d'', [digit_char d1, digit_char d0]), (CHR ''H'', [digit_char h1, digit_char h0]), (CHR ''M'', [digit_char n1, digit_char n0]), (CHR ''S'', [digit_char s1, digit_char s0])], [])"
    using d by simp
  note m = group_m [OF M this]
  have "re_match (Lit CHR ''-'' # Group CHR ''m'' (the (TimeRE CHR ''m'')) # Lit CHR ''-'' # Group CHR ''d'' (the (TimeRE CHR ''d'')) # Spaces # Group CHR ''H'' (the (TimeRE CHR ''H'')) # Lit CHR '':'' # Group CHR ''M'' (the (TimeRE CHR ''M'')) #
            [Lit CHR '':'', Group CHR ''S'' (the (TimeRE CHR ''S''))])
          (CHR ''-'' # digit_char m1 # digit_char m0 # CHR ''-'' # digit_char d1 # digit_char d0 # CHR '' '' # digit_char h1 # digit_char h0 # CHR '':'' # digit_char n1 # digit_char n0 # CHR '':'' # [digit_char s1, digit_char s0])
        = Some ([(CHR ''m'', [digit_char m1, digit_char m0]), (CHR ''d'', [digit_char d1, digit_char d0]), (CHR ''H'', [digit_char h1, digit_char h0]), (CHR ''M'', [digit_char n1, digit_char n0]), (CHR ''S'', [digit_char s1, digit_char s0])], [])"
    using m by simp
  note y = group_Y [OF Y this]
  show ?thesis unfolding canonical_items_def using y by simp
qed

lemma new_datetime_valid:
  "valid_datetime t \<Longrightarrow>
   new_datetime (year t) (month t) (day t) (hour t) (minute t) (second t) 0 = Inr (t\<lparr>microsecond := 0\<rparr>)"
  by (simp add: valid_datetime_def new_datetime_def)

theorem strptime_strftime:
  assumes v: "valid_datetime t" and y: "1000 \<le> year t"
  shows "strptime (strftime t canonical) canonical = Inr (t\<lparr>microsecond := 0\<rparr>)"
proof -
  have yr: "year t \<le> 9999" and mo: "1 \<le> month t" "month t \<le> 12"
    and dy: "1 \<le> day t" "day t \<le> days_in_month (year t) (month t)"
    and hr: "0 \<le> hour t" "hour t \<le> 23" and mi: "0 \<le> minute t" "minute t \<le> 59"
    and se: "0 \<le> second t" "second t \<le> 59"
    using v by (simp_all add: valid_datetime_def MAXYEAR_def)
  have dy31: "day t \<le> 31" using dy(2) days_in_month_le [OF mo, of "year t"] by (rule order_trans)
  note Y = year_digits_of [OF y yr]
  have mo99: "0 \<le> month t" "month t \<le> 99" using mo by simp_all
  have dy99: "0 \<le> day t" "day t \<le> 99" using dy(1) dy31 by simp_all
  have hr99: "hour t \<le> 99" using hr by simp
  have mi99: "minute t \<le> 99" using mi by simp
  have se99: "second t \<le> 99" using se by simp
  note M = digits_of [OF mo99]
  note D = digits_of [OF dy99]
  note H = digits_of [OF hr(1) hr99]
  note N = digits_of [OF mi(1) mi99]
  note S = digits_of [OF se(1) se99]
  have M': "1 \<le> 10 * (month t div 10) + month t mod 10" "10 * (month t div 10) + month t mod 10 \<le> 12"
    unfolding M(5) by (rule mo)+
  have D': "1 \<le> 10 * (day t div 10) + day t mod 10" "10 * (day t div 10) + day t mod 10 \<le> 31"
    unfolding D(5) by (rule dy(1), rule dy31)
  have H': "10 * (hour t div 10) + hour t mod 10 \<le> 23"
    unfolding H(5) by (rule hr(2))
  have N': "10 * (minute t div 10) + minute t mod 10 \<le> 59"
    unfolding N(5) by (rule mi(2))
  have S': "10 * (second t div 10) + second t mod 10 \<le> 59"
    unfolding S(5) by (rule se(2))
  have str: "strftime t canonical =
      [digit_char (year t div 1000), digit_char (year t div 100 mod 10), digit_char (year t div 10 mod 10),
       digit_char (year t mod 10)] @ CHR ''-'' #
      [digit_char (month t div 10), digit_char (month t mod 10)] @ CHR ''-'' #
      [digit_char (day t div 10), digit_char (day t mod 10)] @ CHR '' '' #
      [digit_char (hour t div 10), digit_char (hour t mod 10)] @ CHR '':'' #
      [digit_char (minute t div 10), digit_char (minute t mod 10)] @ CHR '':'' #
      [digit_char (second t div 10), digit_char (second t mod 10)]"
    by (simp add: strftime_canonical str_int_4 [OF y yr] pad2_def)
  have m: "re_match canonical_items (strftime t canonical) =
      Some ([(CHR ''Y'', [digit_char (year t div 1000), digit_char (year t div 100 mod 10),
                         digit_char (year t div 10 mod 10), digit_char (year t mod 10)]),
             (CHR ''m'', [digit_char (month t div 10), digit_char (month t mod 10)]),
             (CHR ''d'', [digit_char (day t div 10), digit_char (day t mod 10)]),
             (CHR ''H'', [digit_char (hour t div 10), digit_char (hour t mod 10)]),
             (CHR ''M'', [digit_char (minute t div 10), digit_char (minute t mod 10)]),
             (CHR ''S'', [digit_char (second t div 10), digit_char (second t mod 10)])], [])"
    unfolding str
    by (rule canonical_match_digits [OF Y(2) Y(4) Y(6) Y(8) M(1) M(3) M(4) M' D(1) D(3) D(4) D'
          H(1) H(3) H(4) H' N(1) N(3) N(4) N' S(1) S(3) S(4) S'])
  have vals:
    "py_int [digit_char (year t div 1000), digit_char (year t div 100 mod 10),
             digit_char (year t div 10 mod 10), digit_char (year t mod 10)] = year t"
    "py_int [digit_char (month t div 10), digit_char (month t mod 10)] = month t"
    "py_int [digit_char (day t div 10), digit_char (day t mod 10)] = day t"
    "py_int [digit_char (hour t div 10), digit_char (hour t mod 10)] = hour t"
    "py_int [digit_char (minute t div 10), digit_char (minute t mod 10)] = minute t"
    "py_int [digit_char (second t div 10), digit_char (second t mod 10)] = second t"
    by (simp_all only: py_int_4 [OF Y] py_int_2 [OF M(1,2,3,4)] py_int_2 [OF D(1,2,3,4)]
          py_int_2 [OF H(1,2,3,4)] py_int_2 [OF N(1,2,3,4)] py_int_2 [OF S(1,2,3,4)]
          year_digits_sum M(5) D(5) H(5) N(5) S(5))
  show ?thesis
    unfolding strptime_def pattern_canonical bindE_simps m
    by (simp add: found_or_def vals new_datetime_valid [OF v])
qed

section \<open>The search\<close>

lemma bindE_eq_Inr: "bindE m f = Inr y \<longleftrightarrow> (\<exists>v. m = Inr v \<and> f v = Inr y)"
  by (cases m) simp_all

lemma mapE_Inr_set: "mapE f xs = Inr ys \<Longrightarrow> y \<in> set ys \<Longrightarrow> \<exists>x\<in>set xs. f x = Inr y"
  by (induction xs arbitrary: ys) (auto simp: bindE_eq_Inr)

lemma parse_entry_categories:
  assumes "parse_entry entry = Inr r"
  shows "categories r =
      (if primary_category r \<in> set (listed entry) then listed entry
       else primary_category r # listed entry)"
  using assms unfolding parse_entry_def listed_def
  by (auto simp: bindE_eq_Inr Let_def split: option.splits)

lemma set_sort_reverse [simp]: "set (sort_reverse k xs) = set xs"
  by (simp add: sort_reverse_def)

lemma parse_feed_entries:
  "parse_feed data = Inr rs \<Longrightarrow> r \<in> set rs \<Longrightarrow> \<exists>entry. parse_entry entry = Inr r"
  unfolding parse_feed_def
  by (auto simp: bindE_eq_Inr split: body.splits dest: mapE_Inr_set)

lemma search_Inr_parse_feed:
  "fst (search_arxiv_api net q s e m) = Inr rs \<Longrightarrow> \<exists>data. parse_feed data = Inr rs"
  unfolding search_arxiv_api_def Let_def
  by (auto split: prod.splits sum.splits option.splits http_result.splits)

lemma sorted_sort_reverse:
  "sorted_wrt (\<lambda>a b. k a \<ge> k b) (sort_reverse k xs)"
proof -
  have "sorted (map k (sort_key k (rev xs)))" by (rule sorted_sort_key)
  then have "sorted_wrt (\<lambda>a b. k a \<le> k b) (sort_key k (rev xs))"
    by (simp add: sorted_map)
  then show ?thesis
    by (simp add: sort_reverse_def sorted_wrt_rev)
qed

lemma for_attempts_requests:
  "set (snd (for_attempts net url as r reqs)) \<subseteq> insert url (set reqs)"
proof (induction as arbitrary: r reqs)
  case Nil
  show ?case by auto
next
  case (Cons a as)
  have IH: "set (snd (for_attempts net url as r' (reqs @ [url]))) \<subseteq> insert url (set reqs)" for r'
    using Cons.IH [of r' "reqs @ [url]"] by simp
  show ?case
  proof (cases "net a url")
    case Raises
    then show ?thesis using IH [of r] by auto
  next
    case (Response st b)
    then show ?thesis using IH [of "Some (Response st b)"] by auto
  qed
qed

lemma search_requests:
  "set (snd (search_arxiv_api net q s e m)) \<subseteq> {build_url q s e m}"
proof -
  have "snd (search_arxiv_api net q s e m)
          = snd (for_attempts net (build_url q s e m) [0, 1, 2] None [])"
    unfolding search_arxiv_api_def Let_def
    by (auto split: prod.splits sum.splits option.splits http_result.splits)
  then show ?thesis
    using for_attempts_requests [of net "build_url q s e m" "[0, 1, 2]" None "[]"] by simp
qed

lemma replace_one: "replace old [new] s = map (\<lambda>c. if c = old then new else c) s"
  by (induction s) (simp_all add: replace_def)

lemma replace_none: "replace old [] s = filter (\<lambda>c. c \<noteq> old) s"
  by (induction s) (simp_all add: replace_def)

lemma digit_char_not_newline [simp]:
  "n \<le> 9 \<Longrightarrow> digit_char n \<noteq> CHR ''\<newline>''" "n \<le> 9 \<Longrightarrow> CHR ''\<newline>'' \<noteq> digit_char n"
  by (simp_all add: digit_char_eq_iff eq_commute [of "CHR ''\<newline>''"])

lemma str_int_no_newline: "CHR ''\<newline>'' \<notin> set (str_int n)"
proof (induction n rule: str_int.induct)
  case (1 n)
  show ?case
  proof (cases "n < 10")
    case True
    then have "n \<le> 9" by simp
    with True show ?thesis
      by (subst str_int.simps) (simp add: digit_char_not_newline)
  next
    case False
    have "n mod 10 \<le> 9" by simp
    with False 1 show ?thesis
      by (subst str_int.simps) (simp add: digit_char_not_newline)
  qed
qed

lemma ex_search:
  "fst (search_arxiv_api net_ok q0 ''2024-02-23 12:00:00'' ''2024-03-01 12:00:00'' 100)
     = Inr [res_new, res_old]"
  by code_simp

lemma ex_requests:
  "snd (search_arxiv_api net_ok q0 ''2024-02-23 12:00:00'' ''2024-03-01 12:00:00'' 100) = [url0]"
  by code_simp




text \<open>
  C5, as the claim states it, fails: the feed of \<open>net_ok\<close> lists \<^verbatim>\<open>math.CO\<close> before the
  primary category \<^verbatim>\<open>cs.DM\<close> of its first entry, and the record of that entry keeps the
  order of the feed, so its primary category is not its first category.
\<close>

theorem primary_first_counterexample:
  "fst (search_arxiv_api net_ok q0 ''2024-02-23 12:00:00'' ''2024-03-01 12:00:00'' 100)
     = Inr [res_new, res_old] \<and>
   primary_category res_old = Some ''cs.DM'' \<and>
   categories res_old = [Some ''math.CO'', Some ''cs.DM''] \<and>
   hd (categories res_old) \<noteq> primary_category res_old"
  using ex_search by (simp add: res_old_def)

text \<open>
  C5, amended. For every record of a successful search the primary category is among the
  categories. The categories are the terms the entry lists, in the order of the feed, when
  the primary category is one of them, and the primary category followed by those terms
  when it is not: it is the first element in the second case, and in the first case only
  if the feed lists it first.
\<close>

theorem categories_of_results:
  assumes "fst (search_arxiv_api net q s e m) = Inr rs" and "r \<in> set rs"
  shows "primary_category r \<in> set (categories r) \<and>
     (\<exists>entry. parse_entry entry = Inr r \<and>
        categories r = (if primary_category r \<in> set (listed entry) then listed entry
                        else primary_category r # listed entry))"
proof -
  from assms obtain entry where e: "parse_entry entry = Inr r"
    by (blast dest: search_Inr_parse_feed parse_feed_entries)
  from parse_entry_categories [OF e] show ?thesis using e
    by (auto split: if_splits)
qed

theorem categories_of_results_witness:
  "fst (search_arxiv_api net_ok q0 ''2024-02-23 12:00:00'' ''2024-03-01 12:00:00'' 100)
     = Inr [res_new, res_old] \<and>
   res_old \<in> set [res_new, res_old] \<and>
   primary_category res_old \<in> set (categories res_old)"
proof -
  have m: "res_old \<in> set [res_new, res_old]" by simp
  from categories_of_results [OF ex_search m] ex_search m show ?thesis by blast
qed

text \<open>
  C6. The records a successful search returns are in non-increasing order of
  \<^verbatim>\<open>published\<close>, compared as \<^verbatim>\<open>datetime\<close> values are.
\<close>

theorem results_sorted:
  assumes "fst (search_arxiv_api net q s e m) = Inr rs"
  shows "sorted_wrt (\<lambda>a b. dt_key (published a) \<ge> dt_key (published b)) rs"
proof -
  from assms obtain data where "parse_feed data = Inr rs"
    by (blast dest: search_Inr_parse_feed)
  then show ?thesis
    unfolding parse_feed_def
    by (auto simp: bindE_eq_Inr sorted_sort_reverse split: body.splits)
qed

theorem results_sorted_witness:
  "fst (search_arxiv_api net_ok q0 ''2024-02-23 12:00:00'' ''2024-03-01 12:00:00'' 100)
     = Inr [res_new, res_old] \<and>
   sorted_wrt (\<lambda>a b. dt_key (published a) \<ge> dt_key (published b)) [res_new, res_old] \<and>
   dt_key (published res_old) < dt_key (published res_new)"
proof -
  have "dt_key (published res_old) < dt_key (published res_new)"
    by (simp add: res_old_def res_new_def dt_key_def)
  with results_sorted [OF ex_search] ex_search show ?thesis by blast
qed

text \<open>
  C9. Every request of a search goes to the URL of lines 65 to 71, in which each newline
  of the query is replaced by a space: the query part of the URL has no newline, and the
  URL has none when the two bounds have none.
\<close>

theorem query_newlines_replaced:
  assumes "u \<in> set (snd (search_arxiv_api net q s e m))"
  shows "u = ''http://export.arxiv.org/api/query?search_query=(''
             @ map (\<lambda>c. if c = CHR ''\<newline>'' then CHR '' '' else c) q
             @ '')+AND+submittedDate:[''
             @ filter (\<lambda>c. c \<noteq> CHR '':'') (filter (\<lambda>c. c \<noteq> CHR '' '') (filter (\<lambda>c. c \<noteq> CHR ''-'') s))
             @ ''+TO+''
             @ filter (\<lambda>c. c \<noteq> CHR '':'') (filter (\<lambda>c. c \<noteq> CHR '' '') (filter (\<lambda>c. c \<noteq> CHR ''-'') e))
             @ '']&start=0&max_results='' @ str_int m \<and>
         CHR ''\<newline>'' \<notin> set (map (\<lambda>c. if c = CHR ''\<newline>'' then CHR '' '' else c) q) \<and>
         (CHR ''\<newline>'' \<notin> set s \<and> CHR ''\<newline>'' \<notin> set e \<longrightarrow> CHR ''\<newline>'' \<notin> set u)"
proof -
  from assms search_requests [of net q s e m] have u: "u = build_url q s e m" by auto
  have q: "CHR ''\<newline>'' \<notin> set (map (\<lambda>c. if c = CHR ''\<newline>'' then CHR '' '' else c) q)"
    by (induction q) simp_all
  have b: "build_url q s e m = ''http://export.arxiv.org/api/query?search_query=(''
             @ map (\<lambda>c. if c = CHR ''\<newline>'' then CHR '' '' else c) q
             @ '')+AND+submittedDate:[''
             @ filter (\<lambda>c. c \<noteq> CHR '':'') (filter (\<lambda>c. c \<noteq> CHR '' '') (filter (\<lambda>c. c \<noteq> CHR ''-'') s))
             @ ''+TO+''
             @ filter (\<lambda>c. c \<noteq> CHR '':'') (filter (\<lambda>c. c \<noteq> CHR '' '') (filter (\<lambda>c. c \<noteq> CHR ''-'') e))
             @ '']&start=0&max_results='' @ str_int m"
    unfolding build_url_def Let_def replace_none replace_one [of _ "CHR '' ''", simplified] 
    by (simp add: replace_one [of "CHR ''\<newline>''" "CHR '' ''"])
  have n: "CHR ''\<newline>'' \<notin> set s \<and> CHR ''\<newline>'' \<notin> set e \<longrightarrow> CHR ''\<newline>'' \<notin> set u"
    unfolding u b using q str_int_no_newline [of m] by auto
  from u b q n show ?thesis by simp
qed

theorem query_newlines_replaced_witness:
  "url0 \<in> set (snd (search_arxiv_api net_ok q0 ''2024-02-23 12:00:00'' ''2024-03-01 12:00:00'' 100)) \<and>
   CHR ''\<newline>'' \<in> set q0 \<and>
   CHR ''\<newline>'' \<notin> set ''2024-02-23 12:00:00'' \<and> CHR ''\<newline>'' \<notin> set ''2024-03-01 12:00:00'' \<and>
   CHR ''\<newline>'' \<notin> set url0"
proof -
  have m: "url0 \<in> set (snd (search_arxiv_api net_ok q0 ''2024-02-23 12:00:00'' ''2024-03-01 12:00:00'' 100))"
    unfolding ex_requests by simp
  have s: "CHR ''\<newline>'' \<notin> set ''2024-02-23 12:00:00''" "CHR ''\<newline>'' \<notin> set ''2024-03-01 12:00:00''"
    "CHR ''\<newline>'' \<in> set q0"
    by (simp_all add: q0_def)
  from query_newlines_replaced [OF m] s m show ?thesis by blast
qed


section \<open>The window\<close>

lemma new_datetime_error: "new_datetime y mo d h mi s us = Inl e \<Longrightarrow> e = ValueError"
  by (auto simp add: new_datetime_def split: if_splits)

lemma strptime_canonical_error: "strptime s canonical = Inl e \<Longrightarrow> e = ValueError"
  unfolding strptime_def pattern_canonical bindE_simps
  by (auto split: option.splits prod.splits if_splits dest: new_datetime_error)

lemma compute_weekly_range_absent:
  "compute_weekly_range now None = seven_days_ago now"
  "compute_weekly_range now (Some []) = seven_days_ago now"
  by (simp_all add: compute_weekly_range_def)

lemma compute_weekly_range_unparsable:
  assumes "strptime s canonical = Inl e"
  shows "compute_weekly_range now (Some s) = seven_days_ago now"
  using assms strptime_canonical_error [OF assms]
  by (simp add: compute_weekly_range_def)

lemma compute_weekly_range_parsed:
  assumes "s \<noteq> []" and "strptime s canonical = Inr t"
    and "datetime_add t (new_timedelta 0 1 0) = Inr t'"
  shows "compute_weekly_range now (Some s) = Inr (strftime t' canonical, strftime now canonical)"
  using assms by (simp add: compute_weekly_range_def)

lemma datetime_add_error: "datetime_add t d = Inl e \<Longrightarrow> e = OverflowError"
  by (auto simp add: datetime_add_def Let_def split: if_splits prod.splits)

lemma compute_weekly_range_overflow:
  assumes "s \<noteq> []" and "strptime s canonical = Inr t"
    and "datetime_add t (new_timedelta 0 1 0) = Inl e"
  shows "compute_weekly_range now (Some s) = Inl OverflowError"
  using assms datetime_add_error [OF assms(3)] by (simp add: compute_weekly_range_def)

lemma days_before_month_bounds:
  assumes "1 \<le> m" "m \<le> 12"
  shows "0 \<le> days_before_month y m" "days_before_month y m + days_in_month y m \<le> 366"
  using month_cases [OF assms]
  by (elim disjE; simp add: days_before_month_def days_in_month_def DAYS_BEFORE_MONTH_def
        DAYS_IN_MONTH_def)+

lemma days_before_year_bounds:
  assumes "1 \<le> y" "y \<le> 9998"
  shows "0 \<le> days_before_year y" "days_before_year y \<le> 3651331"
proof -
  define z a b c where "z = y - 1" and "a = z div 4" and "b = z div 100" and "c = z div 400"
  have z: "0 \<le> z" "z \<le> 9997" using assms by (simp_all add: z_def)
  have a: "4 * a \<le> z" "z < 4 * a + 4" unfolding a_def by (simp_all add: mult.commute)
  have b: "100 * b \<le> z" "z < 100 * b + 100" unfolding b_def by (simp_all add: mult.commute)
  have c: "400 * c \<le> z" "z < 400 * c + 400" unfolding c_def by (simp_all add: mult.commute)
  have e: "days_before_year y = z * 365 + a - b + c"
    by (simp add: days_before_year_def Let_def z_def a_def b_def c_def)
  have p: "0 \<le> a" "0 \<le> c" "b \<le> z" using z a b c by linarith+
  show "0 \<le> days_before_year y" unfolding e using z p by linarith
  show "days_before_year y \<le> 3651331" unfolding e using z a b c by linarith
qed

lemma toordinal_bounds:
  assumes v: "valid_datetime t" and y: "year t \<le> 9998"
  shows "1 \<le> toordinal t" "toordinal t < MAXORDINAL"
proof -
  have f: "1 \<le> year t" "1 \<le> month t" "month t \<le> 12" "1 \<le> day t"
      "day t \<le> days_in_month (year t) (month t)"
    using v by (simp_all add: valid_datetime_def MINYEAR_def)
  note m = days_before_month_bounds [OF f(2,3), of "year t"]
  note d = days_before_year_bounds [OF f(1) y]
  show "1 \<le> toordinal t" unfolding toordinal_def ymd2ord_def using m d f by linarith
  show "toordinal t < MAXORDINAL" unfolding toordinal_def ymd2ord_def MAXORDINAL_def
    using m d f by linarith
qed

lemma datetime_add_one_second:
  assumes v: "valid_datetime t" and y: "year t \<le> 9998"
  shows "\<exists>t'. datetime_add (t\<lparr>microsecond := 0\<rparr>) (new_timedelta 0 1 0) = Inr t'"
proof -
  define x where "x = hour t * 3600 + minute t * 60 + second t"
  define n where "n = toordinal t"
  have f: "0 \<le> hour t" "hour t \<le> 23" "0 \<le> minute t" "minute t \<le> 59" "0 \<le> second t"
      "second t \<le> 59"
    using v by (simp_all add: valid_datetime_def)
  have x: "0 \<le> x" "x < 86400" unfolding x_def using f by linarith+
  have x0: "x div 86400 = 0" "x mod 86400 = x" using x by simp_all
  have x1: "0 \<le> (x + 1) div 86400" "(x + 1) div 86400 \<le> 1"
  proof -
    show "0 \<le> (x + 1) div 86400" using x by (simp add: pos_imp_zdiv_nonneg_iff)
    have "(x + 1) div 86400 \<le> 86400 div 86400" using x by (intro zdiv_mono1) simp_all
    then show "(x + 1) div 86400 \<le> 1" by simp
  qed
  have n: "1 \<le> n" "n < MAXORDINAL" unfolding n_def by (rule toordinal_bounds [OF v y])+
  have o: "toordinal (t\<lparr>microsecond := 0\<rparr>) = n" by (simp add: toordinal_def n_def)
  have delta: "timedelta_add
            (new_timedelta (toordinal (t\<lparr>microsecond := 0\<rparr>))
               (hour (t\<lparr>microsecond := 0\<rparr>) * 3600 + minute (t\<lparr>microsecond := 0\<rparr>) * 60
                  + second (t\<lparr>microsecond := 0\<rparr>)) (microsecond (t\<lparr>microsecond := 0\<rparr>)))
            (new_timedelta 0 1 0)
          = \<lparr>td_days = n + (x + 1) div 86400, td_seconds = (x + 1) mod 86400, td_microseconds = 0\<rparr>"
    unfolding o by (simp add: timedelta_add_def new_timedelta_def Let_def x_def [symmetric] x0)
  have r: "0 < n + (x + 1) div 86400" "n + (x + 1) div 86400 \<le> MAXORDINAL"
    using n x1 by linarith+
  show ?thesis
    unfolding datetime_add_def delta Let_def using r
    by (simp split: prod.splits)
qed

section \<open>One user's cycle\<close>


lemma strftime_canonical_nonempty: "strftime t canonical \<noteq> []"
  by (simp add: strftime_canonical)

lemma update_last_run_persists:
  assumes "email_sent" "\<not> no_update a" "ud ''filepath'' = Some p" "open_w env p = None"
  shows "update_last_run env email_sent a ud w =
     (None, ud(''last_run'' \<mapsto> strftime (now_update env) canonical),
      w\<lparr>files := (files w)(p \<mapsto>
           Doc ((ud(''last_run'' \<mapsto> strftime (now_update env) canonical))(''filepath'' := None)))\<rparr>)"
  using assms by (simp add: update_last_run_def Let_def)

lemma update_last_run_skips:
  assumes "\<not> email_sent \<or> no_update a"
  shows "update_last_run env email_sent a ud w = (None, ud, w)"
  using assms by (auto simp add: update_last_run_def)

lemma update_last_run_no_filepath:
  assumes "email_sent" "\<not> no_update a" "ud ''filepath'' = None"
  shows "update_last_run env email_sent a ud w =
     (Some (KeyError ''filepath''), ud(''last_run'' \<mapsto> strftime (now_update env) canonical), w)"
  using assms by (simp add: update_last_run_def Let_def)

text \<open>A cycle whose record has its three fields and whose window, search and formatting
  succeed goes on to the delivery and to the update.\<close>

lemma process_user_data_delivery:
  assumes "ud ''user'' = Some un" "ud ''email_address'' = Some em" "ud ''search_query'' = Some q"
    and "compute_weekly_range (now_range env) (ud ''last_run'') = Inr (date_from, date_to)"
    and "search_arxiv_api (network env) q date_from date_to 100 = (Inr rs, reqs)"
    and "format_results rs = Inr html"
  shows "process_user_data cfg env ud a w =
     (let msg = compose_message cfg un em q date_from date_to html;
          a' = (if test a then a\<lparr>print_only := True, no_update := True\<rparr> else a)
      in case send_or_print cfg env a' em (msg_subject msg) (msg_body msg) msg
                (w\<lparr>requested := requested w @ reqs\<rparr>) of
           (email_sent, w1) \<Rightarrow>
             (case update_last_run env email_sent a' ud w1 of
                (exc, ud', w2) \<Rightarrow> (exc, ud', a', w2)))"
  using assms by (simp add: process_user_data_def Let_def)


lemma window_after_persisted:
  assumes "valid_datetime t" "1000 \<le> year t" "year t \<le> 9998"
  shows "\<exists>t'. datetime_add (t\<lparr>microsecond := 0\<rparr>) (new_timedelta 0 1 0) = Inr t' \<and>
     compute_weekly_range now2 (Some (strftime t canonical))
       = Inr (strftime t' canonical, strftime now2 canonical)"
proof -
  from datetime_add_one_second [OF assms(1,3)] obtain t'
    where t': "datetime_add (t\<lparr>microsecond := 0\<rparr>) (new_timedelta 0 1 0) = Inr t'" ..
  from compute_weekly_range_parsed [OF strftime_canonical_nonempty
      strptime_strftime [OF assms(1,2)] t']
  show ?thesis using t' by blast
qed


lemma ex_window_next:
  "compute_weekly_range t_next (Some (strftime t_update canonical))
     = Inr (''2024-03-01 12:00:06'', ''2024-03-08 09:00:00'')"
  by code_simp

lemma ex_clock:
  "valid_datetime t_update" "1000 \<le> year t_update" "year t_update \<le> 9998"
  by (simp_all add: valid_datetime_def t_update_def MINYEAR_def MAXYEAR_def days_in_month_def
        DAYS_IN_MONTH_def)

text \<open>
  C3, at the input where the code departs from it. The watermark \<^verbatim>\<open>9999-12-31 23:59:59\<close>
  parses in the canonical format; adding one second to it raises \<^verbatim>\<open>OverflowError\<close>, which
  the \<^verbatim>\<open>except ValueError\<close> of line 50 does not handle, so \<^verbatim>\<open>compute_weekly_range\<close> raises.
\<close>

theorem last_second_watermark_raises:
  "strptime ''9999-12-31 23:59:59'' canonical = Inr last_second \<and>
   datetime_add last_second (new_timedelta 0 1 0) = Inl OverflowError \<and>
   compute_weekly_range t_next (Some ''9999-12-31 23:59:59'') = Inl OverflowError"
proof -
  have a: "strptime ''9999-12-31 23:59:59'' canonical = Inr last_second" by code_simp
  have b: "datetime_add last_second (new_timedelta 0 1 0) = Inl OverflowError" by code_simp
  from compute_weekly_range_overflow [OF _ a b] a b show ?thesis by simp
qed

text \<open>
  C10. A cycle that persists writes \<^verbatim>\<open>last_run\<close> as the clock of line 201 printed in the
  canonical format. For a clock reading in the years 1000 to 9998 that string parses back
  to the same instant (without the microseconds), so the next run, at any time, takes the
  branch of the valid watermark: its window starts one second after the persisted instant,
  printed in the canonical format, and is not the seven-day fallback.
\<close>

theorem persisted_watermark_parses:
  assumes "\<not> no_update a" "ud ''filepath'' = Some p" "open_w env p = None"
    and "valid_datetime (now_update env)" "1000 \<le> year (now_update env)"
    and "year (now_update env) \<le> 9998"
  shows "\<exists>ud' w' d t'.
     update_last_run env True a ud w = (None, ud', w') \<and>
     load_user w' p = Inr d \<and>
     d ''last_run'' = Some (strftime (now_update env) canonical) \<and>
     strptime (strftime (now_update env) canonical) canonical
       = Inr ((now_update env)\<lparr>microsecond := 0\<rparr>) \<and>
     datetime_add ((now_update env)\<lparr>microsecond := 0\<rparr>) (new_timedelta 0 1 0) = Inr t' \<and>
     compute_weekly_range now2 (d ''last_run'')
       = Inr (strftime t' canonical, strftime now2 canonical)"
proof -
  let ?s = "strftime (now_update env) canonical"
  let ?d = "(ud(''last_run'' \<mapsto> ?s))(''filepath'' := None)"
  let ?w = "w\<lparr>files := (files w)(p \<mapsto> Doc ?d)\<rparr>"
  have u: "update_last_run env True a ud w = (None, ud(''last_run'' \<mapsto> ?s), ?w)"
    using assms(1-3) by (intro update_last_run_persists) simp_all
  have l: "load_user ?w p = Inr ?d" by (simp add: load_user_def)
  have d: "?d ''last_run'' = Some ?s" by simp
  from window_after_persisted [OF assms(4-6), of now2] obtain t'
    where t': "datetime_add ((now_update env)\<lparr>microsecond := 0\<rparr>) (new_timedelta 0 1 0) = Inr t'"
      and c: "compute_weekly_range now2 (Some ?s) = Inr (strftime t' canonical, strftime now2 canonical)"
    by blast
  from u l d t' c strptime_strftime [OF assms(4,5)] show ?thesis
    by (metis (no_types, lifting))
qed

theorem persisted_watermark_parses_witness:
  "\<not> no_update args_none \<and> alice_b ''filepath'' = Some ''users/b.yaml'' \<and>
   open_w env_ok ''users/b.yaml'' = None \<and> valid_datetime (now_update env_ok) \<and>
   1000 \<le> year (now_update env_ok) \<and> year (now_update env_ok) \<le> 9998 \<and>
   (\<exists>ud' w' d t'.
     update_last_run env_ok True args_none alice_b world_dir = (None, ud', w') \<and>
     load_user w' ''users/b.yaml'' = Inr d \<and>
     d ''last_run'' = Some (strftime (now_update env_ok) canonical) \<and>
     strptime (strftime (now_update env_ok) canonical) canonical
       = Inr ((now_update env_ok)\<lparr>microsecond := 0\<rparr>) \<and>
     datetime_add ((now_update env_ok)\<lparr>microsecond := 0\<rparr>) (new_timedelta 0 1 0) = Inr t' \<and>
     compute_weekly_range t_next (d ''last_run'')
       = Inr (strftime t' canonical, strftime t_next canonical)) \<and>
   compute_weekly_range t_next (Some (strftime (now_update env_ok) canonical))
     = Inr (''2024-03-01 12:00:06'', ''2024-03-08 09:00:00'')"
proof -
  have h: "\<not> no_update args_none" "alice_b ''filepath'' = Some ''users/b.yaml''"
      "open_w env_ok ''users/b.yaml'' = None"
    by (simp_all add: args_none_def alice_b_def env_ok_def)
  have c: "valid_datetime (now_update env_ok)" "1000 \<le> year (now_update env_ok)"
      "year (now_update env_ok) \<le> 9998"
    using ex_clock by (simp_all add: env_ok_def)
  have e: "compute_weekly_range t_next (Some (strftime (now_update env_ok) canonical))
     = Inr (''2024-03-01 12:00:06'', ''2024-03-08 09:00:00'')"
    using ex_window_next by (simp add: env_ok_def)
  from persisted_watermark_parses [where a = args_none and ud = alice_b
      and p = "''users/b.yaml''" and env = env_ok and w = world_dir and ?now2.0 = t_next, OF h c] h c e
  show ?thesis by blast
qed






lemma ex_after_first:
  "stored_last_run after_first ''users/b.yaml'' = Some ''2024-03-01 12:00:05''"
  by code_simp




lemma send_or_print_failed:
  assumes "\<not> print_only a" "smtp env (SMTP_SERVER cfg) (SMTP_PORT cfg) msg = Some e"
  shows "send_or_print cfg env a em subject body msg w = (False, w)"
  using assms by (simp add: send_or_print_def)


lemma msg_to_compose [simp]: "msg_to (compose_message cfg un em q df dt html) = em"
  by (simp add: compose_message_def)

text \<open>
  The stored record after a delivering cycle, where the record carries its path and the
  file opens: it is rewritten exactly when the update is not suppressed.
\<close>

lemma cycle_untouched:
  assumes "ud ''user'' = Some un" "ud ''email_address'' = Some em" "ud ''search_query'' = Some q"
    and "compute_weekly_range (now_range env) (ud ''last_run'') = Inr (date_from, date_to)"
    and "search_arxiv_api (network env) q date_from date_to 100 = (Inr rs, reqs)"
    and "format_results rs = Inr html"
    and "test a \<or> no_update a \<or>
         (\<not> print_only a \<and> smtp env (SMTP_SERVER cfg) (SMTP_PORT cfg)
            (compose_message cfg un em q date_from date_to html) \<noteq> None)"
  shows "fst (process_user_data cfg env ud a w) = None \<and>
         files (snd (snd (snd (process_user_data cfg env ud a w)))) = files w"
  unfolding process_user_data_delivery [OF assms(1-6)]
  using assms(7)
  by (auto simp add: Let_def send_or_print_def update_last_run_def split: option.splits)

text \<open>
  C1, at an input where the code departs from it. The program is started with
  \<^verbatim>\<open>--user-file alice.yaml\<close> and no other option; the search succeeds and the SMTP server
  accepts the mail. Lines 248 to 250 do not put \<^verbatim>\<open>filepath\<close> into the dictionary as line 239
  does for a directory, so line 202 raises \<^verbatim>\<open>KeyError\<close>: the mail is out, the exception leaves
  the program and the stored record has no \<^verbatim>\<open>last_run\<close>. The same record processed from a
  directory is rewritten.
\<close>

theorem single_file_cycle_not_persisted:
  "fst single_file_sent = Some (KeyError ''filepath'') \<and>
   map msg_to (outbox (snd (snd single_file_sent))) = [''alice@example.org''] \<and>
   stored_last_run (snd (snd single_file_sent)) ''alice.yaml'' = None \<and>
   stored_last_run world0 ''alice.yaml'' = None \<and>
   stored_last_run after_first ''users/b.yaml'' = Some ''2024-03-01 12:00:05''"
proof -
  have a: "(fst single_file_sent, map msg_to (outbox (snd (snd single_file_sent))),
            stored_last_run (snd (snd single_file_sent)) ''alice.yaml'',
            stored_last_run world0 ''alice.yaml'')
      = (Some (KeyError ''filepath''), [''alice@example.org''], None, None)"
    by code_simp
  have e: "stored_last_run after_first ''users/b.yaml'' = Some ''2024-03-01 12:00:05''"
    by (rule ex_after_first)
  from a e show ?thesis by simp
qed



section \<open>The batch\<close>







end
